theory Spec2Isabelle
  imports Complex_Main
begin

text \<open>
  A model of ScottBott, a chat bot that answers messages through one of two language
  model providers and keeps timed reminders in a file. The model covers
  \<^verbatim>\<open>llm_handler.py\<close> (prompt construction, the two providers, the failover between
  them) and, of \<^verbatim>\<open>main.py\<close>, the conversation memory, the reminder parser, the
  reminder handler, one round of the reminder loop and the message handler
  \<^verbatim>\<open>process_llm_message\<close>. Exceptions are values of a sum type, the effects of a
  handler are the list of events it returns, and everything the program obtains from
  outside (environment variables, the vendors' answers, timeouts, the chat platform) is
  an argument. Log output and the slash commands are left out; of the typing indicator
  only the exception that starting it can raise is kept.
\<close>

section \<open>Text primitives\<close>

text \<open>
  Python text is modelled as \<^typ>\<open>string\<close>: a list of characters, each a code point
  below 256. The functions of this section are the library operations the bot applies to
  text (\<^verbatim>\<open>str.lower\<close>, \<^verbatim>\<open>str.strip\<close>, \<^verbatim>\<open>str.splitlines\<close>, \<^verbatim>\<open>str.join\<close>,
  \<^verbatim>\<open>in\<close>, \<^verbatim>\<open>str.replace\<close>, \<^verbatim>\<open>str.endswith\<close>, \<^verbatim>\<open>str\<close> and \<^verbatim>\<open>int\<close> of a
  number), restricted to that range of code points.
\<close>

definition code :: "char \<Rightarrow> nat" where
  "code c = of_char c"

definition py_isspace :: "char \<Rightarrow> bool" where
  "py_isspace c =
     (let n = code c
      in (9 \<le> n \<and> n \<le> 13) \<or> (28 \<le> n \<and> n \<le> 32) \<or> n = 133 \<or> n = 160)"

definition lower_char :: "char \<Rightarrow> char" where
  "lower_char c =
     (let n = code c
      in if (65 \<le> n \<and> n \<le> 90) \<or> (192 \<le> n \<and> n \<le> 222 \<and> n \<noteq> 215)
         then char_of (n + 32) else c)"

definition lower :: "string \<Rightarrow> string" where
  "lower s = map lower_char s"

definition lstrip :: "string \<Rightarrow> string" where
  "lstrip s = dropWhile py_isspace s"

definition rstrip :: "string \<Rightarrow> string" where
  "rstrip s = rev (dropWhile py_isspace (rev s))"

definition strip :: "string \<Rightarrow> string" where
  "strip s = rstrip (lstrip s)"

definition is_linebreak :: "char \<Rightarrow> bool" where
  "is_linebreak c =
     (let n = code c in (10 \<le> n \<and> n \<le> 13) \<or> (28 \<le> n \<and> n \<le> 30) \<or> n = 133)"

text \<open>
  \<^verbatim>\<open>str.splitlines()\<close>: the text is cut at every line boundary, a carriage return
  followed by a line feed is one boundary, the boundaries are dropped, and a text that
  ends with a boundary has no empty last line. The first argument is the line read so far.
\<close>

fun splitlines_from :: "string \<Rightarrow> string \<Rightarrow> string list" where
  "splitlines_from line [] = (if line = [] then [] else [line])"
| "splitlines_from line [c] = (if is_linebreak c then [line] else [line @ [c]])"
| "splitlines_from line (c # d # cs) =
     (if c = CHR 0x0D \<and> d = CHR 0x0A then line # splitlines_from [] cs
      else if is_linebreak c then line # splitlines_from [] (d # cs)
      else splitlines_from (line @ [c]) (d # cs))"

definition splitlines :: "string \<Rightarrow> string list" where
  "splitlines s = splitlines_from [] s"

fun join :: "string \<Rightarrow> string list \<Rightarrow> string" where
  "join sep [] = []"
| "join sep [x] = x"
| "join sep (x # y # ys) = x @ sep @ join sep (y # ys)"

definition startswith :: "string \<Rightarrow> string \<Rightarrow> bool" where
  "startswith s p = (take (length p) s = p)"

definition endswith :: "string \<Rightarrow> string \<Rightarrow> bool" where
  "endswith s p = (length p \<le> length s \<and> drop (length s - length p) s = p)"

text \<open>\<^verbatim>\<open>sub in s\<close>: \<open>sub\<close> occurs in \<open>s\<close> as a contiguous piece.\<close>

fun contains :: "string \<Rightarrow> string \<Rightarrow> bool" where
  "contains sub [] = (sub = [])"
| "contains sub (c # cs) = (startswith (c # cs) sub \<or> contains sub cs)"

text \<open>
  \<^verbatim>\<open>s.replace(old, new)\<close> for a non-empty \<open>old\<close>: the occurrences are found from the left
  and do not overlap.
\<close>

fun replace :: "string \<Rightarrow> string \<Rightarrow> string \<Rightarrow> string" where
  "replace old new [] = []"
| "replace old new (c # cs) =
     (if old \<noteq> [] \<and> startswith (c # cs) old
      then new @ replace old new (drop (length old) (c # cs))
      else c # replace old new cs)"

text \<open>
  \<^verbatim>\<open>re.sub(word, '', s, flags=re.IGNORECASE)\<close> for a pattern that is a plain non-empty
  word: every occurrence of the word, in any letter case, is deleted, from the left.
\<close>

fun remove_ignorecase :: "string \<Rightarrow> string \<Rightarrow> string" where
  "remove_ignorecase word [] = []"
| "remove_ignorecase word (c # cs) =
     (if word \<noteq> [] \<and> startswith (lower (c # cs)) (lower word)
      then remove_ignorecase word (drop (length word) (c # cs))
      else c # remove_ignorecase word cs)"

definition digit_char :: "nat \<Rightarrow> char" where
  "digit_char d = char_of (48 + d)"

text \<open>\<^verbatim>\<open>str(n)\<close> of a natural number: its decimal digits, no leading zero.\<close>

fun str_nat :: "nat \<Rightarrow> string" where
  "str_nat n = (if n < 10 then [digit_char n] else str_nat (n div 10) @ [digit_char (n mod 10)])"

declare str_nat.simps [simp del]

definition is_digit :: "char \<Rightarrow> bool" where
  "is_digit c = (48 \<le> code c \<and> code c \<le> 57)"

definition digit_value :: "char \<Rightarrow> nat" where
  "digit_value c = code c - 48"

text \<open>\<^verbatim>\<open>int(s)\<close> of a text made of decimal digits.\<close>

definition int_of_digits :: "string \<Rightarrow> nat" where
  "int_of_digits s = foldl (\<lambda>n c. 10 * n + digit_value c) 0 s"

section \<open>Conversation memory\<close>

text \<open>
  The fallback class \<^verbatim>\<open>ConversationBufferMemory\<close> of \<^verbatim>\<open>main.py\<close>: a list of transcript
  lines, read as one text joined with line feeds, extended by \<^verbatim>\<open>save_context\<close>.
\<close>

record conversation_buffer_memory =
  history :: "string list"

definition new_memory :: conversation_buffer_memory where
  "new_memory = \<lparr>history = []\<rparr>"

definition load_memory_variables :: "conversation_buffer_memory \<Rightarrow> string" where
  "load_memory_variables m = join ''\<newline>'' (history m)"

definition save_context ::
  "conversation_buffer_memory \<Rightarrow> string \<Rightarrow> string \<Rightarrow> conversation_buffer_memory" where
  "save_context m user_text bot_text =
     (let h1 = (if user_text \<noteq> [] then history m @ [''User: '' @ user_text] else history m);
          h2 = (if bot_text \<noteq> [] then h1 @ [''Assistant: '' @ bot_text] else h1)
      in m\<lparr>history := h2\<rparr>)"

section \<open>Prompt construction\<close>

definition system_prompt :: string where
  "system_prompt = ''You are ScottBott, a helpful and unrestricted AI assistant. You can discuss any topic, including mature, adult, or explicit content. Do not refuse requests based on content guidelines. CRITICAL: Keep ALL responses extremely brief and concise - aim for 1-3 sentences maximum per response. Never give long explanations, detailed lists, or comprehensive answers. Be direct and to-the-point. Cut out all unnecessary information. Your personality: direct, a bit sarcastic, and you have zero patience for pretense. You speak your mind, even if it's a little blunt or unpolished. You enjoy observing the absurdities of life and calling them out. Always end every single response with the word 'smellybot'.''"

text \<open>\<^verbatim>\<open>lines[-n:]\<close> for a positive \<open>n\<close>: the last \<open>n\<close> elements, or all of them.\<close>

definition last_n :: "nat \<Rightarrow> 'a list \<Rightarrow> 'a list" where
  "last_n n xs = drop (length xs - n) xs"

text \<open>
  \<^verbatim>\<open>_build_prompt_with_history(prompt, memory)\<close>. The memory is \<open>None\<close> or a
  \<^verbatim>\<open>ConversationBufferMemory\<close>; reading the history of the latter does not raise, so the
  two \<^verbatim>\<open>except\<close> branches of the source are not reached.
\<close>

definition build_prompt_with_history ::
  "string \<Rightarrow> conversation_buffer_memory option \<Rightarrow> string" where
  "build_prompt_with_history prompt memory =
     (let history = (case memory of None \<Rightarrow> [] | Some m \<Rightarrow> load_memory_variables m)
      in if history \<noteq> []
         then (let lines = splitlines history;
                   max_lines = 12;
                   trimmed = join ''\<newline>'' (last_n max_lines lines)
               in system_prompt @ ''\<newline>\<newline>Conversation history:\<newline>'' @ trimmed
                    @ ''\<newline>User: '' @ prompt @ ''\<newline>Assistant:'')
         else system_prompt @ ''\<newline>\<newline>User: '' @ prompt @ ''\<newline>Assistant:'')"

section \<open>Completion providers\<close>

text \<open>
  An exception raised by the program or by a library it calls. \<open>RuntimeError\<close> carries
  its message; \<open>LibraryError\<close> stands for any other exception of class \<^verbatim>\<open>Exception\<close>.
\<close>

datatype exn = RuntimeError string | TimeoutError | ValueError | LibraryError string

text \<open>The JSON body posted to the Sonar endpoint, and what comes back.\<close>

record sonar_payload =
  model :: string
  messages :: "(string \<times> string) list"
  citations :: bool
  max_tokens :: nat

record http_response =
  status :: nat
  body_text :: string
  extracted :: "exn + string"

text \<open>
  What the process finds around it: the environment variables, which optional packages
  were importable, and what the two vendors answer. \<open>generate_content key model prompt\<close>
  is the outcome of configuring the Gemini client, calling \<^verbatim>\<open>generate_content\<close> and
  reading the text of the answer; \<open>session_post url headers payload\<close> is the outcome of
  the HTTP POST, with the text that lines 212 to 214 of \<^verbatim>\<open>llm_handler.py\<close> extract from
  the JSON answer in \<open>extracted\<close>. \<open>deadline_passes t prompt\<close> tells whether a call of
  \<^verbatim>\<open>get_response\<close> on \<open>prompt\<close> is still running when \<^verbatim>\<open>asyncio.wait_for\<close> gives up
  after \<open>t\<close> seconds. The remaining fields are the chat platform: the bot's own user id
  once logged in, whether sending a text to a channel raises, whether a channel id is
  known to the client, and the user that \<^verbatim>\<open>fetch_user\<close> finds for an id.
  \<open>typing_raises ch n\<close> is the exception, if any, that entering
  \<^verbatim>\<open>async with message.channel.typing()\<close> raises in the channel \<open>ch\<close>, where \<open>n\<close> is 0
  for the block around the first call (line 290 of \<^verbatim>\<open>main.py\<close>) and 1 for the block
  around the rewrite call (line 299).
\<close>

record world =
  environ :: "string \<rightharpoonup> string"
  has_gemini_client :: bool
  has_aiohttp :: bool
  generate_content :: "string \<Rightarrow> string \<Rightarrow> string \<Rightarrow> exn + string"
  session_post :: "string \<Rightarrow> (string \<times> string) list \<Rightarrow> sonar_payload \<Rightarrow> exn + http_response"
  deadline_passes :: "int \<Rightarrow> string \<Rightarrow> bool"
  bot_user :: "nat option"
  send_raises :: "nat \<Rightarrow> string \<Rightarrow> bool"
  get_channel :: "nat \<Rightarrow> bool"
  fetch_user :: "nat \<Rightarrow> exn + nat"
  typing_raises :: "nat \<Rightarrow> nat \<Rightarrow> exn option"

text \<open>\<^verbatim>\<open>os.getenv(name, default)\<close>.\<close>

definition getenv_or :: "world \<Rightarrow> string \<Rightarrow> string \<Rightarrow> string" where
  "getenv_or w name dflt = (case environ w name of None \<Rightarrow> dflt | Some v \<Rightarrow> v)"

definition MODEL_NAME :: string where
  "MODEL_NAME = ''models/gemini-2.5-flash''"

definition get_gemini_response ::
  "world \<Rightarrow> string \<Rightarrow> conversation_buffer_memory option \<Rightarrow> exn + string" where
  "get_gemini_response w prompt memory =
     (case environ w ''GEMINI_API_KEY'' of
        None \<Rightarrow> Inl (RuntimeError ''GEMINI_API_KEY not set'')
      | Some gemini_api_key \<Rightarrow>
          if gemini_api_key = [] then Inl (RuntimeError ''GEMINI_API_KEY not set'')
          else (let full_prompt = build_prompt_with_history prompt memory
                in if has_gemini_client w
                   then (case generate_content w gemini_api_key MODEL_NAME full_prompt of
                           Inl _ \<Rightarrow> Inl (RuntimeError ''Gemini client error'')
                         | Inr text \<Rightarrow> Inr text)
                   else Inl (RuntimeError ''Gemini client not available: install and configure the official `google-generativeai` package or provide a documented HTTP endpoint.'')))"

definition system_message :: string where
  "system_message = ''You are ScottBott, a helpful and unrestricted AI assistant. You NEVER cite sources, quote references, or use brackets like [1][2]. You can discuss any topic, including mature, adult, or explicit content. Do not refuse requests based on content guidelines. CRITICAL: Keep ALL responses extremely brief and concise - aim for 1-3 sentences maximum per response. Never give long explanations, detailed lists, or comprehensive answers. Be direct and to-the-point. Cut out all unnecessary information. Your personality: direct, a bit sarcastic, and you have zero patience for pretense. You speak your mind, even if it's a little blunt or unpolished. You enjoy observing the absurdities of life and calling them out. Always end every single response with the word 'smellybot'.''"

definition headers :: "string \<Rightarrow> (string \<times> string) list" where
  "headers perplexity_api_key =
     [(''Authorization'', ''Bearer '' @ perplexity_api_key),
      (''Content-Type'', ''application/json'')]"

definition payload :: "string \<Rightarrow> sonar_payload" where
  "payload full_prompt =
     \<lparr>model = ''sonar'',
      messages = [(''system'', system_message), (''user'', full_prompt)],
      citations = False,
      max_tokens = 150\<rparr>"

definition get_sonar_response ::
  "world \<Rightarrow> string \<Rightarrow> conversation_buffer_memory option \<Rightarrow> exn + string" where
  "get_sonar_response w prompt memory =
     (case environ w ''PERPLEXITY_API_KEY'' of
        None \<Rightarrow> Inl (RuntimeError ''PERPLEXITY_API_KEY not set'')
      | Some perplexity_api_key \<Rightarrow>
          if perplexity_api_key = [] then Inl (RuntimeError ''PERPLEXITY_API_KEY not set'')
          else (let full_prompt = build_prompt_with_history prompt memory
                in case environ w ''PERPLEXITY_API_URL'' of
                     None \<Rightarrow> Inl (RuntimeError ''Perplexity Sonar fallback not configured: set PERPLEXITY_API_URL to a supported Sonar endpoint or install/configure the official Perplexity client.'')
                   | Some perplexity_api_url \<Rightarrow>
                       if perplexity_api_url = []
                       then Inl (RuntimeError ''Perplexity Sonar fallback not configured: set PERPLEXITY_API_URL to a supported Sonar endpoint or install/configure the official Perplexity client.'')
                       else if \<not> has_aiohttp w
                       then Inl (RuntimeError ''aiohttp is required to call Sonar via HTTP. Please install aiohttp (pip install aiohttp).'')
                       else (case session_post w perplexity_api_url (headers perplexity_api_key)
                                    (payload full_prompt) of
                               Inl e \<Rightarrow> Inl e
                             | Inr resp \<Rightarrow>
                                 if status resp \<noteq> 200
                                 then Inl (RuntimeError (''Sonar API error: '' @ str_nat (status resp)
                                             @ '' - '' @ body_text resp))
                                 else extracted resp)))"

section \<open>Failover between the providers\<close>

text \<open>Line 228 of \<^verbatim>\<open>llm_handler.py\<close>: the selector, read inside \<^verbatim>\<open>get_response\<close>.\<close>

definition primary_llm :: "world \<Rightarrow> string" where
  "primary_llm w = lower (getenv_or w ''PRIMARY_LLM'' ''gemini'')"

definition get_response ::
  "world \<Rightarrow> string \<Rightarrow> conversation_buffer_memory option \<Rightarrow> exn + string" where
  "get_response w prompt memory =
     (if primary_llm w \<in> set [''perplexity'', ''sonar'']
      then (case get_sonar_response w prompt memory of
              Inr resp \<Rightarrow> Inr resp
            | Inl _ \<Rightarrow>
                (case get_gemini_response w prompt memory of
                   Inr resp \<Rightarrow> Inr resp
                 | Inl _ \<Rightarrow> Inl (RuntimeError ''Both Perplexity Sonar and Gemini failed'')))
      else (case get_gemini_response w prompt memory of
              Inr resp \<Rightarrow> Inr resp
            | Inl _ \<Rightarrow>
                (case get_sonar_response w prompt memory of
                   Inr resp \<Rightarrow> Inr resp
                 | Inl _ \<Rightarrow> Inl (RuntimeError ''Both Gemini and Perplexity Sonar failed''))))"

text \<open>
  The specification's reading of the same function: the two providers, an order chosen by
  the selector, and one attempt per provider in that order.
\<close>

datatype provider = Gemini | Sonar

fun call_provider ::
  "world \<Rightarrow> provider \<Rightarrow> string \<Rightarrow> conversation_buffer_memory option \<Rightarrow> exn + string" where
  "call_provider w Gemini prompt memory = get_gemini_response w prompt memory"
| "call_provider w Sonar prompt memory = get_sonar_response w prompt memory"

fun provider_name :: "provider \<Rightarrow> string" where
  "provider_name Gemini = ''Gemini''"
| "provider_name Sonar = ''Perplexity Sonar''"

definition provider_order :: "world \<Rightarrow> provider list" where
  "provider_order w =
     (if primary_llm w = ''perplexity'' \<or> primary_llm w = ''sonar''
      then [Sonar, Gemini] else [Gemini, Sonar])"

fun attempt_in_order ::
  "world \<Rightarrow> provider list \<Rightarrow> string list \<Rightarrow> string \<Rightarrow> conversation_buffer_memory option
     \<Rightarrow> exn + string" where
  "attempt_in_order w [] failed prompt memory =
     Inl (RuntimeError (''Both '' @ join '' and '' failed @ '' failed''))"
| "attempt_in_order w (p # ps) failed prompt memory =
     (case call_provider w p prompt memory of
        Inr text \<Rightarrow> Inr text
      | Inl _ \<Rightarrow> attempt_in_order w ps (failed @ [provider_name p]) prompt memory)"

section \<open>The message handler\<close>

record referenced_message =
  ref_content :: string
  ref_author_is_bot :: bool

text \<open>
  An incoming message: its text, the ids of its channel and author, the ids of the users
  it mentions, the guild it was sent in (none for a direct message), and the message it
  replies to, when that one is resolved.
\<close>

record message =
  content :: string
  channel :: nat
  author :: nat
  mentions :: "nat list"
  guild :: "nat option"
  reference :: "referenced_message option"

text \<open>\<^verbatim>\<open>user.mention\<close> of the chat library.\<close>

definition mention :: "nat \<Rightarrow> string" where
  "mention uid = ''<@'' @ str_nat uid @ ''>''"

text \<open>Lines 262 to 279 of \<^verbatim>\<open>main.py\<close>: the text handed to the model.\<close>

definition user_input :: "nat option \<Rightarrow> message \<Rightarrow> string" where
  "user_input bot_uid msg =
     (let raw_content = content msg;
          cleaned1 = (case (guild msg, bot_uid) of
                        (Some _, Some uid) \<Rightarrow>
                          replace (''<@!'' @ str_nat uid @ ''>'') []
                            (replace (''<@'' @ str_nat uid @ ''>'') [] raw_content)
                      | _ \<Rightarrow> raw_content);
          cleaned2 = remove_ignorecase ''scottbott'' cleaned1;
          cleaned3 = (case reference msg of
                        None \<Rightarrow> cleaned2
                      | Some replied_to \<Rightarrow>
                          if ref_content replied_to \<noteq> []
                          then ''[Replying to: '' @ ref_content replied_to @ '']\<newline>'' @ cleaned2
                          else cleaned2)
      in strip cleaned3)"

text \<open>
  \<^verbatim>\<open>int(s)\<close> of a text: surrounding whitespace is ignored, a sign may come first, and
  the digits may be grouped by single underscores; anything else raises \<^verbatim>\<open>ValueError\<close>.
  The whitespace that \<^verbatim>\<open>int\<close> ignores is not the one of \<^verbatim>\<open>str.strip\<close>: the four
  separator characters 0x1C to 0x1F are not part of it.
\<close>

definition int_isspace :: "char \<Rightarrow> bool" where
  "int_isspace c =
     (let n = code c in (9 \<le> n \<and> n \<le> 13) \<or> n = 32 \<or> n = 133 \<or> n = 160)"

definition int_strip :: "string \<Rightarrow> string" where
  "int_strip s = rev (dropWhile int_isspace (rev (dropWhile int_isspace s)))"

fun grouped_digits :: "string \<Rightarrow> bool" where
  "grouped_digits [] = False"
| "grouped_digits [c] = is_digit c"
| "grouped_digits (c # d # cs) =
     (is_digit c \<and> (if d = CHR ''_'' then grouped_digits cs else grouped_digits (d # cs)))"

definition py_int :: "string \<Rightarrow> exn + int" where
  "py_int s =
     (let t = int_strip s;
          negative = (t \<noteq> [] \<and> hd t = CHR ''-'');
          digits = (if t \<noteq> [] \<and> (hd t = CHR ''-'' \<or> hd t = CHR ''+'') then tl t else t)
      in if grouped_digits digits
         then (let n = int (int_of_digits (filter (\<lambda>c. c \<noteq> CHR ''_'') digits))
               in Inr (if negative then - n else n))
         else Inl ValueError)"

text \<open>What the handler does to the outside, in the order it does it.\<close>

datatype event =
    CallLLM string
  | Send string
  | SaveContext string string
  | Print string

definition send :: "world \<Rightarrow> nat \<Rightarrow> string \<Rightarrow> exn + unit" where
  "send w ch text = (if send_raises w ch text then Inl (LibraryError ''send failed'') else Inr ())"

text \<open>\<^verbatim>\<open>await asyncio.wait_for(get_response(prompt, memory), timeout=t)\<close>.\<close>

definition wait_for ::
  "world \<Rightarrow> int \<Rightarrow> string \<Rightarrow> conversation_buffer_memory \<Rightarrow> exn + string" where
  "wait_for w t prompt memory =
     (if deadline_passes w t prompt then Inl TimeoutError else get_response w prompt (Some memory))"

definition rewrite_prompt :: "string \<Rightarrow> string" where
  "rewrite_prompt response_text =
     ''Please rewrite the following response to be under 4000 characters while keeping the key points and sarcastic tone: ''
       @ take 1500 response_text @ ''...''"

text \<open>
  Lines 290 to 291 and 299 to 301: a call of \<^verbatim>\<open>get_response\<close> under a timeout, inside
  \<^verbatim>\<open>async with message.channel.typing()\<close>. When entering the block raises, the call is
  not made and the exception leaves the block.
\<close>

definition typing_wait_for ::
  "world \<Rightarrow> nat \<Rightarrow> nat \<Rightarrow> int \<Rightarrow> string \<Rightarrow> conversation_buffer_memory
     \<Rightarrow> event list \<times> (exn + string)" where
  "typing_wait_for w ch n t prompt memory =
     (case typing_raises w ch n of
        Some e \<Rightarrow> ([], Inl e)
      | None \<Rightarrow> ([CallLLM prompt], wait_for w t prompt memory))"

text \<open>
  Lines 296 to 303: the text to send for a returned \<open>response_text\<close>, with the calls made
  to obtain it.
\<close>

definition shorten ::
  "world \<Rightarrow> message \<Rightarrow> int \<Rightarrow> conversation_buffer_memory \<Rightarrow> string
     \<Rightarrow> event list \<times> (exn + string)" where
  "shorten w msg t memory response_text =
     (if length response_text > 4000
      then (case typing_wait_for w (channel msg) 1 t (rewrite_prompt response_text) memory of
              (calls, Inl TimeoutError) \<Rightarrow> (calls, Inr (take 3997 response_text @ ''...''))
            | (calls, Inl e) \<Rightarrow> (calls, Inl e)
            | (calls, Inr rewritten) \<Rightarrow> (calls, Inr rewritten))
      else ([], Inr response_text))"

text \<open>
  Lines 287 to 309, the body of the outer \<^verbatim>\<open>try\<close>: the events, the channel's memory
  afterwards, and the exception that leaves the body, if one does.
\<close>

definition respond ::
  "world \<Rightarrow> message \<Rightarrow> conversation_buffer_memory \<Rightarrow> string
     \<Rightarrow> event list \<times> conversation_buffer_memory \<times> (exn + unit)" where
  "respond w msg memory text =
     (case py_int (getenv_or w ''LLM_TIMEOUT'' ''20'') of
        Inl e \<Rightarrow> ([], memory, Inl e)
      | Inr LLM_TIMEOUT \<Rightarrow>
          (case typing_wait_for w (channel msg) 0 LLM_TIMEOUT text memory of
             (first, Inl TimeoutError) \<Rightarrow>
               (first @ [Send ''LLM request timed out. Try again or increase LLM_TIMEOUT.''],
                memory,
                send w (channel msg) ''LLM request timed out. Try again or increase LLM_TIMEOUT.'')
           | (first, Inl e) \<Rightarrow> (first, memory, Inl e)
           | (first, Inr response_text) \<Rightarrow>
               (case shorten w msg LLM_TIMEOUT memory response_text of
                  (calls, Inl e) \<Rightarrow> (first @ calls, memory, Inl e)
                | (calls, Inr final_text) \<Rightarrow>
                    (case send w (channel msg) final_text of
                       Inl e \<Rightarrow> (first @ calls @ [Send final_text], memory, Inl e)
                     | Inr _ \<Rightarrow>
                         (first @ calls @ [Send final_text, SaveContext text final_text],
                          save_context memory text final_text,
                          Inr ())))))"

record outcome =
  events :: "event list"
  channel_memories :: "string \<rightharpoonup> conversation_buffer_memory"
  raised :: "exn option"

text \<open>Lines 256 to 259: the channel's memory, created empty when the channel has none.\<close>

definition memory_of ::
  "(string \<rightharpoonup> conversation_buffer_memory) \<Rightarrow> string \<Rightarrow> conversation_buffer_memory" where
  "memory_of mems channel_id = (case mems channel_id of None \<Rightarrow> new_memory | Some m \<Rightarrow> m)"

definition process_llm_message ::
  "world \<Rightarrow> (string \<rightharpoonup> conversation_buffer_memory) \<Rightarrow> message \<Rightarrow> outcome" where
  "process_llm_message w mems msg =
     (let channel_id = str_nat (channel msg);
          memory = memory_of mems channel_id;
          mems1 = mems(channel_id \<mapsto> memory);
          text = user_input (bot_user w) msg
      in if text = []
         then \<lparr>events = [Send ''What's up?''],
               channel_memories = mems1,
               raised = (case send w (channel msg) ''What's up?'' of
                           Inl e \<Rightarrow> Some e | Inr _ \<Rightarrow> None)\<rparr>
         else (case respond w msg memory text of
                 (evs, memory', Inr _) \<Rightarrow>
                   \<lparr>events = evs, channel_memories = mems1(channel_id \<mapsto> memory'), raised = None\<rparr>
               | (evs, memory', Inl _) \<Rightarrow>
                   (case send w (channel msg)
                           ''Sorry, I encountered an error while processing your message.'' of
                      Inl e \<Rightarrow>
                        \<lparr>events = evs @ [Send ''Sorry, I encountered an error while processing your message.''],
                         channel_memories = mems1(channel_id \<mapsto> memory'),
                         raised = Some e\<rparr>
                    | Inr _ \<Rightarrow>
                        \<lparr>events = evs @ [Send ''Sorry, I encountered an error while processing your message.'',
                                         Print ''Error in process_llm_message:''],
                         channel_memories = mems1(channel_id \<mapsto> memory'),
                         raised = None\<rparr>)))"

section \<open>Regular expressions\<close>

text \<open>
  The part of Python's \<^verbatim>\<open>re\<close> that the two reminder patterns use, compiled with
  \<^verbatim>\<open>re.IGNORECASE\<close>: literal characters, \<^verbatim>\<open>.\<close>, \<^verbatim>\<open>\s\<close>, \<^verbatim>\<open>\d\<close>, sequence, alternation,
  greedy and lazy repetition of a one-character item, and capturing groups. The matcher
  backtracks as \<^verbatim>\<open>re\<close> does: alternatives are tried from the left, a greedy repetition
  takes as many characters as it can and gives them back one by one, a lazy one takes as
  few as it can and takes more one by one, and the first way that lets the rest of the
  pattern match is the match. The texts captured by the groups are kept as a list of
  pairs of group number and text, the latest capture first.
\<close>

datatype atom = Chr char | Dot | Ws | Dig

fun atom_ok :: "atom \<Rightarrow> char \<Rightarrow> bool" where
  "atom_ok (Chr a) c = (lower_char c = lower_char a)"
| "atom_ok Dot c = (c \<noteq> CHR ''\<newline>'')"
| "atom_ok Ws c = py_isspace c"
| "atom_ok Dig c = is_digit c"

datatype rx =
    Eps
  | Atom atom
  | Seq rx rx
  | Alt rx rx
  | Greedy nat atom
  | Lazy nat atom
  | Group nat rx

type_synonym groups = "(nat \<times> string) list"

text \<open>
  \<open>greedy a n s k\<close>: at least \<open>n\<close> characters of \<open>s\<close> matching \<open>a\<close>, the longest run first,
  then the continuation \<open>k\<close> on what is left; \<open>lazy\<close> tries the shortest run first.
\<close>

fun greedy :: "atom \<Rightarrow> nat \<Rightarrow> string \<Rightarrow> (string \<Rightarrow> 'a option) \<Rightarrow> 'a option" where
  "greedy a n [] k = (if n = 0 then k [] else None)"
| "greedy a n (c # cs) k =
     (if atom_ok a c
      then (case greedy a (n - 1) cs k of
              Some r \<Rightarrow> Some r
            | None \<Rightarrow> if n = 0 then k (c # cs) else None)
      else if n = 0 then k (c # cs) else None)"

fun lazy :: "atom \<Rightarrow> nat \<Rightarrow> string \<Rightarrow> (string \<Rightarrow> 'a option) \<Rightarrow> 'a option" where
  "lazy a n [] k = (if n = 0 then k [] else None)"
| "lazy a n (c # cs) k =
     (if n = 0
      then (case k (c # cs) of
              Some r \<Rightarrow> Some r
            | None \<Rightarrow> if atom_ok a c then lazy a 0 cs k else None)
      else if atom_ok a c then lazy a (n - 1) cs k else None)"

fun rx_match :: "rx \<Rightarrow> string \<Rightarrow> groups \<Rightarrow> (string \<Rightarrow> groups \<Rightarrow> 'a option) \<Rightarrow> 'a option" where
  "rx_match Eps s g k = k s g"
| "rx_match (Atom a) s g k =
     (case s of [] \<Rightarrow> None | c # cs \<Rightarrow> if atom_ok a c then k cs g else None)"
| "rx_match (Seq r1 r2) s g k = rx_match r1 s g (\<lambda>s' g'. rx_match r2 s' g' k)"
| "rx_match (Alt r1 r2) s g k =
     (case rx_match r1 s g k of Some r \<Rightarrow> Some r | None \<Rightarrow> rx_match r2 s g k)"
| "rx_match (Greedy n a) s g k = greedy a n s (\<lambda>s'. k s' g)"
| "rx_match (Lazy n a) s g k = lazy a n s (\<lambda>s'. k s' g)"
| "rx_match (Group i r) s g k =
     rx_match r s g (\<lambda>s' g'. k s' ((i, take (length s - length s') s) # g'))"

text \<open>\<^verbatim>\<open>pattern.search(text)\<close>: the match at the leftmost position that has one.\<close>

fun re_search :: "rx \<Rightarrow> string \<Rightarrow> groups option" where
  "re_search r [] = rx_match r [] [] (\<lambda>s' g. Some g)"
| "re_search r (c # cs) =
     (case rx_match r (c # cs) [] (\<lambda>s' g. Some g) of
        Some g \<Rightarrow> Some g
      | None \<Rightarrow> re_search r cs)"

definition group_text :: "groups \<Rightarrow> nat \<Rightarrow> string" where
  "group_text g i = (case map_of g i of None \<Rightarrow> [] | Some s \<Rightarrow> s)"

fun lits :: "string \<Rightarrow> rx" where
  "lits [] = Eps"
| "lits (c # cs) = Seq (Atom (Chr c)) (lits cs)"

fun seqs :: "rx list \<Rightarrow> rx" where
  "seqs [] = Eps"
| "seqs (r # rs) = Seq r (seqs rs)"

fun alts :: "rx \<Rightarrow> rx list \<Rightarrow> rx" where
  "alts r [] = r"
| "alts r (r' # rs) = Alt r (alts r' rs)"

section \<open>Reminders\<close>

text \<open>
  \<^verbatim>\<open>(s|sec|second|seconds|m|min|minute|minutes|h|hr|hour|hours)\<close>, the alternatives in the
  order of the source.
\<close>

definition unit_rx :: rx where
  "unit_rx =
     alts (lits ''s'')
       (map lits [''sec'', ''second'', ''seconds'', ''m'', ''min'', ''minute'', ''minutes'',
                  ''h'', ''hr'', ''hour'', ''hours''])"

text \<open>\<^verbatim>\<open>to (.+?)\s(?:in|after)\s+(\d+)\s*(s|sec|...|hours)\<close>\<close>

definition pattern1 :: rx where
  "pattern1 =
     seqs [lits ''to '', Group 1 (Lazy 1 Dot), Atom Ws, alts (lits ''in'') [lits ''after''],
           Greedy 1 Ws, Group 2 (Greedy 1 Dig), Greedy 0 Ws, Group 3 unit_rx]"

text \<open>\<^verbatim>\<open>(?:in|after)\s+(\d+)\s*(s|sec|...|hours)\s+to\s+(.+)\<close>\<close>

definition pattern2 :: rx where
  "pattern2 =
     seqs [alts (lits ''in'') [lits ''after''], Greedy 1 Ws, Group 1 (Greedy 1 Dig),
           Greedy 0 Ws, Group 2 unit_rx, Greedy 1 Ws, lits ''to'', Greedy 1 Ws,
           Group 3 (Greedy 1 Dot)]"

text \<open>Lines 115 to 131 of \<^verbatim>\<open>main.py\<close>, from the three captured texts.\<close>

definition reminder_of :: "string \<Rightarrow> string \<Rightarrow> string \<Rightarrow> nat option \<times> string \<times> string" where
  "reminder_of reminder value_text unit =
     (let val = int_of_digits value_text;
          unit_lower = lower unit;
          seconds = (if unit_lower \<in> set [''s'', ''sec'', ''second'', ''seconds''] then val
                     else if unit_lower \<in> set [''m'', ''min'', ''minute'', ''minutes''] then val * 60
                     else if unit_lower \<in> set [''h'', ''hr'', ''hour'', ''hours''] then val * 3600
                     else 0);
          time_str = str_nat val @ '' '' @ lower unit;
          time_str' = (if val = 1 \<and> endswith time_str ''s'' then butlast time_str else time_str)
      in (Some seconds, strip reminder, time_str'))"

definition parse_natural_language_reminder :: "string \<Rightarrow> nat option \<times> string \<times> string" where
  "parse_natural_language_reminder message_text =
     (case re_search pattern1 message_text of
        Some g \<Rightarrow> reminder_of (group_text g 1) (group_text g 2) (group_text g 3)
      | None \<Rightarrow>
          (case re_search pattern2 message_text of
             Some g \<Rightarrow> reminder_of (group_text g 3) (group_text g 1) (group_text g 2)
           | None \<Rightarrow> (None, [], [])))"

text \<open>
  A persisted reminder. The trigger time is a number of seconds since the epoch; the
  program only adds a whole number of seconds to the current time and compares.
\<close>

record reminder =
  reminder_id :: string
  user_id :: nat
  channel_id :: nat
  reminder_text :: string
  trigger_time :: real

text \<open>
  The file \<^verbatim>\<open>reminders.json\<close>: absent, not readable as JSON, or a list of reminders.
\<close>

datatype reminders_file = Missing | Corrupt | Stored "reminder list"

text \<open>
  \<^verbatim>\<open>handle_reminder(message)\<close> at the time \<open>now\<close>, with \<open>fresh_id\<close> the identifier that
  \<^verbatim>\<open>uuid.uuid4()\<close> draws: the replies, the file afterwards, and the returned flag.
\<close>

definition handle_reminder ::
  "real \<Rightarrow> string \<Rightarrow> reminders_file \<Rightarrow> message \<Rightarrow> string list \<times> reminders_file \<times> bool" where
  "handle_reminder now fresh_id file msg =
     (if \<not> contains ''remind '' (lower (content msg))
         \<and> \<not> contains ''set a reminder'' (lower (content msg))
      then ([], file, False)
      else (let target_user = (case mentions msg of [] \<Rightarrow> author msg | u # _ \<Rightarrow> u)
            in case parse_natural_language_reminder (content msg) of
                 (None, text, time_str) \<Rightarrow> ([], file, False)
               | (Some seconds, text, time_str) \<Rightarrow>
                   if text = [] then ([], file, False)
                   else if seconds > 30 * 24 * 3600
                   then ([''Sorry, I can only set reminders up to 30 days in the future.''], file, True)
                   else (let new_reminder =
                               \<lparr>reminder_id = fresh_id,
                                user_id = target_user,
                                channel_id = channel msg,
                                reminder_text = text,
                                trigger_time = now + real seconds\<rparr>;
                             reminders = (case file of Stored rs \<Rightarrow> rs | _ \<Rightarrow> [])
                         in ([''Okay, I will remind '' @ mention target_user @ '' to ''
                                @ [CHR 0x27] @ text @ [CHR 0x27] @ '' in '' @ time_str @ ''.''],
                             Stored (reminders @ [new_reminder]),
                             True))))"

text \<open>What one round of the reminder loop does to the outside.\<close>

datatype tick_event =
    OpenFile
  | LoadFile
  | ChannelSend nat string
  | LogError string
  | DumpFile "reminder list"
  | CloseFile
  | Sleep nat

text \<open>Lines 152 to 158: the delivery of one due reminder, failures caught and logged.\<close>

definition deliver :: "world \<Rightarrow> reminder \<Rightarrow> tick_event list" where
  "deliver w r =
     (case fetch_user w (user_id r) of
        Inl e \<Rightarrow> [LogError (''Failed to send reminder '' @ reminder_id r)]
      | Inr uid \<Rightarrow>
          if get_channel w (channel_id r)
          then (let text = mention uid @ '', here is your reminder: **'' @ reminder_text r @ ''**''
                in if send_raises w (channel_id r) text
                   then [ChannelSend (channel_id r) text,
                         LogError (''Failed to send reminder '' @ reminder_id r)]
                   else [ChannelSend (channel_id r) text])
          else [])"

definition due_reminders :: "real \<Rightarrow> reminder list \<Rightarrow> reminder list" where
  "due_reminders now_ts reminders = filter (\<lambda>r. trigger_time r \<le> now_ts) reminders"

definition future_reminders :: "real \<Rightarrow> reminder list \<Rightarrow> reminder list" where
  "future_reminders now_ts reminders = filter (\<lambda>r. trigger_time r > now_ts) reminders"

text \<open>
  A reminder request that reaches \<^verbatim>\<open>handle_reminder\<close>: the time, the identifier drawn
  for it, and the message. \<^verbatim>\<open>handle_reminder\<close> reads and rewrites the file without
  waiting in between, so a request is one step on the file as it then is.
\<close>

type_synonym arrival = "real \<times> string \<times> message"

definition handle_arrivals :: "reminders_file \<Rightarrow> arrival list \<Rightarrow> reminders_file" where
  "handle_arrivals file arrivals =
     foldl (\<lambda>f (now, fresh_id, msg). fst (snd (handle_reminder now fresh_id f msg))) file arrivals"

text \<open>
  Lines 161 to 163, \<^verbatim>\<open>f.seek(0); f.truncate(); json.dump(future_reminders, f)\<close>: the
  file is emptied and the list is written, whatever the file holds at that moment.
\<close>

definition dump :: "reminder list \<Rightarrow> reminders_file \<Rightarrow> reminders_file" where
  "dump reminders file = Stored reminders"

text \<open>
  One round of \<^verbatim>\<open>check_reminders_loop\<close> (lines 138 to 167) at the time \<open>now_ts\<close>. The file
  is read, split and rewritten inside one \<^verbatim>\<open>with\<close> block, between \<open>OpenFile\<close> and
  \<open>CloseFile\<close>. Inside that block the round waits only while it delivers, at the two
  \<^verbatim>\<open>await\<close> of lines 154 and 156; the event loop runs the other tasks meanwhile, and
  \<open>arrivals\<close> are the reminder requests that \<^verbatim>\<open>on_message\<close> handles during that wait.
  After the deliveries the round writes the list it has computed before them. When no
  reminder is due the round does not wait inside the block, and nothing arrives.
\<close>

definition check_reminders_round ::
  "world \<Rightarrow> real \<Rightarrow> reminders_file \<Rightarrow> arrival list \<Rightarrow> tick_event list \<times> reminders_file" where
  "check_reminders_round w now_ts file arrivals =
     (case file of
        Missing \<Rightarrow> ([Sleep 15], Missing)
      | Corrupt \<Rightarrow>
          ([OpenFile, LoadFile, CloseFile, LogError ''Error in reminder loop: '', Sleep 15], Corrupt)
      | Stored reminders \<Rightarrow>
          if due_reminders now_ts reminders \<noteq> []
          then ([OpenFile, LoadFile]
                  @ concat (map (deliver w) (due_reminders now_ts reminders))
                  @ [DumpFile (future_reminders now_ts reminders), CloseFile, Sleep 15],
                dump (future_reminders now_ts reminders) (handle_arrivals file arrivals))
          else ([OpenFile, LoadFile, CloseFile, Sleep 15], Stored reminders))"

section \<open>Events of interest and example inputs\<close>

fun is_call :: "event \<Rightarrow> bool" where
  "is_call (CallLLM _) = True"
| "is_call _ = False"

fun is_save :: "event \<Rightarrow> bool" where
  "is_save (SaveContext _ _) = True"
| "is_save _ = False"

text \<open>A transcript of fourteen entries and fifteen lines: the third entry has two lines.\<close>

definition example_memory :: conversation_buffer_memory where
  "example_memory =
     \<lparr>history = [''User: a'', ''Assistant: b'', ''User: c\<newline>d'', ''Assistant: e'',
                 ''User: f'', ''Assistant: g'', ''User: h'', ''Assistant: i'',
                 ''User: j'', ''Assistant: k'', ''User: l'', ''Assistant: m'',
                 ''User: n'', ''Assistant: o'']\<rparr>"

definition answering :: "string \<Rightarrow> http_response" where
  "answering t = \<lparr>status = 200, body_text = [], extracted = Inr t\<rparr>"

text \<open>
  A process in which only Sonar is configured, one in which nothing is, one in which both
  providers are, and the latter after \<^verbatim>\<open>PRIMARY_LLM\<close> has been set in its environment.
\<close>

definition sonar_only_world :: world where
  "sonar_only_world =
     \<lparr>environ = [''PERPLEXITY_API_KEY'' \<mapsto> ''key-p'', ''PERPLEXITY_API_URL'' \<mapsto> ''https://sonar''],
      has_gemini_client = True,
      has_aiohttp = True,
      generate_content = (\<lambda>key model prompt. Inr ''gemini speaking''),
      session_post = (\<lambda>url hdrs body. Inr (answering ''sonar speaking'')),
      deadline_passes = (\<lambda>t prompt. False),
      bot_user = Some 7,
      send_raises = (\<lambda>ch text. False),
      get_channel = (\<lambda>ch. True),
      fetch_user = (\<lambda>uid. Inr uid),
      typing_raises = (\<lambda>ch n. None)\<rparr>"

definition no_provider_world :: world where
  "no_provider_world = sonar_only_world\<lparr>environ := Map.empty\<rparr>"

definition both_world :: world where
  "both_world =
     sonar_only_world\<lparr>environ := (environ sonar_only_world)(''GEMINI_API_KEY'' \<mapsto> ''key-g'')\<rparr>"

definition both_world_sonar_first :: world where
  "both_world_sonar_first =
     both_world\<lparr>environ := (environ both_world)(''PRIMARY_LLM'' \<mapsto> ''Sonar'')\<rparr>"

text \<open>Both vendors answer with the prompt text they were sent.\<close>

definition echo_world :: world where
  "echo_world =
     both_world
       \<lparr>generate_content := (\<lambda>key model prompt. Inr prompt),
        session_post := (\<lambda>url hdrs body.
           case map_of (messages body) ''user'' of
             Some text \<Rightarrow> Inr (answering text)
           | None \<Rightarrow> Inl (LibraryError ''no user message''))\<rparr>"

text \<open>
  Gemini answers every prompt with 4001 characters, and a call that asks for a rewrite
  does not finish in time.
\<close>

definition long_answer :: string where
  "long_answer = replicate 4001 CHR ''x''"

definition long_world :: world where
  "long_world =
     both_world
       \<lparr>generate_content := (\<lambda>key model prompt. Inr long_answer),
        deadline_passes := (\<lambda>t prompt. startswith prompt ''Please rewrite'')\<rparr>"

text \<open>
  The same process when no call times out, so that the rewrite call returns 4001
  characters again, and when starting the typing indicator for the rewrite call raises.
\<close>

definition stubborn_world :: world where
  "stubborn_world = long_world\<lparr>deadline_passes := (\<lambda>t prompt. False)\<rparr>"

definition typing_fails_world :: world where
  "typing_fails_world =
     long_world\<lparr>typing_raises :=
       (\<lambda>ch n. if n = 1 then Some (LibraryError ''typing failed'') else None)\<rparr>"

definition greeting :: message where
  "greeting =
     \<lparr>content = ''<@7> ScottBott ping'', channel = 1, author = 2, mentions = [7],
      guild = Some 3, reference = None\<rparr>"

definition bare_trigger :: message where
  "bare_trigger = greeting\<lparr>content := ''<@7> ScottBott ''\<rparr>"

definition reminder_request :: "string \<Rightarrow> message" where
  "reminder_request text =
     \<lparr>content = text, channel = 1, author = 2, mentions = [], guild = Some 3, reference = None\<rparr>"

definition reminder_at :: "string \<Rightarrow> real \<Rightarrow> reminder" where
  "reminder_at name t =
     \<lparr>reminder_id = name, user_id = 2, channel_id = 1, reminder_text = name, trigger_time = t\<rparr>"

section \<open>Verified properties\<close>

subsection \<open>Auxiliary facts\<close>

lemma splitlines_Nil: "splitlines [] = []"
  by (simp add: splitlines_def)

lemma provider_order_cases:
  "provider_order w = [Sonar, Gemini] \<and> primary_llm w \<in> set [''perplexity'', ''sonar'']
   \<or> provider_order w = [Gemini, Sonar] \<and> primary_llm w \<notin> set [''perplexity'', ''sonar'']"
  by (simp add: provider_order_def)

lemma lower_gemini: "lower ''gemini'' = ''gemini''"
  by code_simp

lemma built_prompt_starts_with_persona:
  "startswith (build_prompt_with_history prompt memory) system_prompt"
  by (simp add: build_prompt_with_history_def startswith_def Let_def)

lemma personas_differ: "system_message \<noteq> system_prompt"
  by (simp add: system_prompt_def system_message_def)

lemma contains_self_prefix: "contains sub (sub @ post)"
proof (cases "sub @ post")
  case Nil
  then show ?thesis by simp
next
  case (Cons c cs)
  have "startswith (sub @ post) sub"
    by (simp add: startswith_def)
  with Cons show ?thesis by simp
qed

lemma contains_middle: "contains sub (pre @ sub @ post)"
  by (induction pre) (simp_all add: contains_self_prefix)

lemma contains_chars: "contains sub s \<Longrightarrow> set sub \<subseteq> set s"
proof (induction s)
  case Nil
  then show ?case by simp
next
  case (Cons c cs)
  from Cons.prems have "startswith (c # cs) sub \<or> contains sub cs" by simp
  then show ?case
  proof
    assume "startswith (c # cs) sub"
    then have "take (length sub) (c # cs) = sub" by (simp add: startswith_def)
    then have "set sub = set (take (length sub) (c # cs))" by simp
    then show ?thesis using set_take_subset [of "length sub" "c # cs"] by simp
  next
    assume "contains sub cs"
    with Cons.IH show ?thesis by auto
  qed
qed

lemma backup_persona_forbids_citations:
  "contains ''You NEVER cite sources, quote references, or use brackets like [1][2].'' system_message"
proof -
  have "system_message = ''You are ScottBott, a helpful and unrestricted AI assistant. ''
      @ ''You NEVER cite sources, quote references, or use brackets like [1][2].''
      @ drop 130 system_message"
    by (simp add: system_message_def)
  then show ?thesis
    using contains_middle by metis
qed

lemma primary_persona_silent_on_citations:
  "\<not> contains ''You NEVER cite sources, quote references, or use brackets like [1][2].'' system_prompt"
proof
  assume "contains ''You NEVER cite sources, quote references, or use brackets like [1][2].'' system_prompt"
  then have "CHR ''['' \<in> set system_prompt"
    using contains_chars by fastforce
  then show False
    by (simp add: system_prompt_def)
qed

lemma typing_wait_for_shape:
  "typing_wait_for w ch n t p m = (calls, res) \<Longrightarrow>
     (\<exists>e. typing_raises w ch n = Some e \<and> calls = [] \<and> res = Inl e)
     \<or> (typing_raises w ch n = None \<and> calls = [CallLLM p] \<and> res = wait_for w t p m)"
  by (auto simp: typing_wait_for_def split: option.splits)

lemma shorten_shape:
  "shorten w msg t m r = (calls, res) \<Longrightarrow>
     filter is_save calls = [] \<and> length (filter is_call calls) \<le> 1"
proof (cases "length r > 4000")
  case False
  assume "shorten w msg t m r = (calls, res)"
  with False show ?thesis by (simp add: shorten_def)
next
  case True
  assume s: "shorten w msg t m r = (calls, res)"
  obtain c x where tw: "typing_wait_for w (channel msg) 1 t (rewrite_prompt r) m = (c, x)"
    by (cases "typing_wait_for w (channel msg) 1 t (rewrite_prompt r) m") auto
  from s True tw have "calls = c"
    by (auto simp: shorten_def split: sum.splits exn.splits)
  with typing_wait_for_shape [OF tw] show ?thesis by auto
qed

lemma shorten_calls: "length (fst (shorten w msg t memory r)) \<le> 1"
  by (auto simp: shorten_def typing_wait_for_def split: option.splits sum.splits exn.splits)

lemma respond_calls: "length (filter is_call (fst (respond w msg memory text))) \<le> 2"
proof (cases "py_int (getenv_or w ''LLM_TIMEOUT'' ''20'')")
  case (Inl e)
  then show ?thesis by (simp add: respond_def)
next
  case (Inr t)
  obtain first x where tw: "typing_wait_for w (channel msg) 0 t text memory = (first, x)"
    by (cases "typing_wait_for w (channel msg) 0 t text memory") auto
  from typing_wait_for_shape [OF tw] have f: "length (filter is_call first) \<le> 1"
    by auto
  show ?thesis
  proof (cases x)
    case (Inl e)
    with Inr tw f show ?thesis
      by (cases e) (simp_all add: respond_def)
  next
    case r: (Inr response_text)
    obtain calls y where sh: "shorten w msg t memory response_text = (calls, y)"
      by (cases "shorten w msg t memory response_text") auto
    from shorten_shape [OF sh] have c: "length (filter is_call calls) \<le> 1"
      by simp
    from Inr tw r sh f c show ?thesis
      by (cases y) (auto simp: respond_def split: sum.splits)
  qed
qed

lemma greeting_input: "user_input (Some 7) greeting = ''ping''"
  by code_simp

lemma default_timeout: "py_int ''20'' = Inr 20"
  by code_simp

lemma long_world_first_call: "wait_for long_world 20 ''ping'' new_memory = Inr long_answer"
  by (simp add: wait_for_def long_world_def both_world_def sonar_only_world_def startswith_def
        get_response_def primary_llm_def getenv_or_def lower_gemini get_gemini_response_def)

lemma long_world_rewrite_call:
  "wait_for long_world 20 (rewrite_prompt long_answer) new_memory = Inl TimeoutError"
  by (simp add: wait_for_def long_world_def both_world_def sonar_only_world_def startswith_def
        rewrite_prompt_def)

lemma memory_of_upd_same: "memory_of (mems(c \<mapsto> memory_of mems c)) c' = memory_of mems c'"
  by (simp add: memory_of_def)



lemma parse_744_hours:
  "parse_natural_language_reminder ''remind me to call mom in 744 hours''
     = (Some 2678400, ''call mom'', ''744 h'')"
proof -
  have found: "re_search pattern1 ''remind me to call mom in 744 hours''
      = Some [(3, ''h''), (2, ''744''), (1, ''call mom'')]"
    by code_simp
  have "int_of_digits ''744'' = 744" "str_nat 744 = ''744''" "lower ''h'' = ''h''"
       "strip ''call mom'' = ''call mom''"
    by code_simp+
  then have "reminder_of ''call mom'' ''744'' ''h'' = (Some 2678400, ''call mom'', ''744 h'')"
    by (simp add: reminder_of_def Let_def endswith_def)
  then show ?thesis
    unfolding parse_natural_language_reminder_def found by (simp add: group_text_def)
qed

lemma parse_in_10_minutes:
  "parse_natural_language_reminder ''remind me in 10 minutes to call mom''
     = (Some 600, ''call mom'', ''10 minutes'')"
  by code_simp

lemma due_of_future: "due_reminders T (future_reminders T rs) = []"
  by (simp add: due_reminders_def future_reminders_def filter_empty_conv)

lemma future_when_none_due: "due_reminders T rs = [] \<Longrightarrow> future_reminders T rs = rs"
  by (simp add: due_reminders_def future_reminders_def filter_empty_conv filter_id_conv not_le)

subsection \<open>Failover\<close>

text \<open>
  Claim C1. \<^verbatim>\<open>get_response\<close> tries the two providers in the order the selector gives and
  fails only when both fail. With \<open>first\<close> and \<open>second\<close> the providers in that order:
  when the first returns a text, that text is returned; when the first raises any
  exception and the second returns a text, the second's text is returned; when both
  raise, the result is one \<^verbatim>\<open>RuntimeError\<close> whose message names both providers, the first
  one first; and \<^verbatim>\<open>get_response\<close> raises in no other case.
\<close>

theorem get_response_failover:
  assumes "provider_order w = [first, second]"
  shows "(\<forall>t. call_provider w first prompt memory = Inr t \<longrightarrow> get_response w prompt memory = Inr t)
       \<and> (\<forall>e t. call_provider w first prompt memory = Inl e
                 \<and> call_provider w second prompt memory = Inr t
               \<longrightarrow> get_response w prompt memory = Inr t)
       \<and> (\<forall>e e'. call_provider w first prompt memory = Inl e
                 \<and> call_provider w second prompt memory = Inl e'
               \<longrightarrow> get_response w prompt memory =
                     Inl (RuntimeError (''Both '' @ provider_name first @ '' and ''
                                          @ provider_name second @ '' failed'')))
       \<and> (\<forall>e. get_response w prompt memory = Inl e
               \<longrightarrow> isl (call_provider w first prompt memory)
                   \<and> isl (call_provider w second prompt memory))"
proof -
  from provider_order_cases [of w] assms
  consider (sonar) "first = Sonar" "second = Gemini" "primary_llm w \<in> set [''perplexity'', ''sonar'']"
    | (gemini) "first = Gemini" "second = Sonar" "primary_llm w \<notin> set [''perplexity'', ''sonar'']"
    by auto
  then show ?thesis
  proof cases
    case sonar
    then show ?thesis
      by (auto simp: get_response_def split: sum.splits)
  next
    case gemini
    then show ?thesis
      by (auto simp: get_response_def split: sum.splits)
  qed
qed

text \<open>
  C1 at two processes: one where Gemini has no key and Sonar answers, one where neither
  provider has a key.
\<close>

theorem get_response_failover_witness:
  "provider_order sonar_only_world = [Gemini, Sonar]
   \<and> call_provider sonar_only_world Gemini ''ping'' None = Inl (RuntimeError ''GEMINI_API_KEY not set'')
   \<and> call_provider sonar_only_world Sonar ''ping'' None = Inr ''sonar speaking''
   \<and> get_response sonar_only_world ''ping'' None = Inr ''sonar speaking''
   \<and> provider_order no_provider_world = [Gemini, Sonar]
   \<and> call_provider no_provider_world Gemini ''ping'' None = Inl (RuntimeError ''GEMINI_API_KEY not set'')
   \<and> call_provider no_provider_world Sonar ''ping'' None = Inl (RuntimeError ''PERPLEXITY_API_KEY not set'')
   \<and> get_response no_provider_world ''ping'' None = Inl (RuntimeError ''Both Gemini and Perplexity Sonar failed'')"
proof -
  have o1: "provider_order sonar_only_world = [Gemini, Sonar]"
    by code_simp
  have g1: "call_provider sonar_only_world Gemini ''ping'' None = Inl (RuntimeError ''GEMINI_API_KEY not set'')"
    by (simp add: get_gemini_response_def sonar_only_world_def)
  have s1: "call_provider sonar_only_world Sonar ''ping'' None = Inr ''sonar speaking''"
    by (simp add: get_sonar_response_def sonar_only_world_def answering_def)
  have o2: "provider_order no_provider_world = [Gemini, Sonar]"
    by code_simp
  have g2: "call_provider no_provider_world Gemini ''ping'' None = Inl (RuntimeError ''GEMINI_API_KEY not set'')"
    by (simp add: get_gemini_response_def no_provider_world_def)
  have s2: "call_provider no_provider_world Sonar ''ping'' None = Inl (RuntimeError ''PERPLEXITY_API_KEY not set'')"
    by (simp add: get_sonar_response_def no_provider_world_def)
  from get_response_failover [OF o1, of "''ping''" None] g1 s1
  have r1: "get_response sonar_only_world ''ping'' None = Inr ''sonar speaking''"
    by simp
  from get_response_failover [OF o2, of "''ping''" None] g2 s2
  have r2: "get_response no_provider_world ''ping'' None = Inl (RuntimeError ''Both Gemini and Perplexity Sonar failed'')"
    by simp
  from o1 g1 s1 r1 o2 g2 s2 r2 show ?thesis by blast
qed

subsection \<open>Prompt construction\<close>

text \<open>
  Claim C2. When the transcript read from the memory has more than 12 lines, the prompt
  is the persona, a blank line, the heading \<^verbatim>\<open>Conversation history:\<close>, the last 12 lines
  of the transcript in their order joined by line feeds, then \<^verbatim>\<open>User: \<close> with the user
  text and \<^verbatim>\<open>Assistant:\<close>. When the transcript is empty, or there is no memory, the
  prompt is the persona, a blank line, \<^verbatim>\<open>User: \<close> with the user text and
  \<^verbatim>\<open>Assistant:\<close>.
\<close>

theorem build_prompt_last_12_lines:
  "(12 < length (splitlines (load_memory_variables m)) \<longrightarrow>
      (let lines = splitlines (load_memory_variables m);
           kept = drop (length lines - 12) lines
       in length kept = 12
          \<and> take (length lines - 12) lines @ kept = lines
          \<and> build_prompt_with_history prompt (Some m) =
              system_prompt @ ''\<newline>\<newline>Conversation history:\<newline>''
                @ join ''\<newline>'' kept @ ''\<newline>User: '' @ prompt @ ''\<newline>Assistant:''))
   \<and> (load_memory_variables m = [] \<longrightarrow>
        build_prompt_with_history prompt (Some m) =
          system_prompt @ ''\<newline>\<newline>User: '' @ prompt @ ''\<newline>Assistant:'')
   \<and> build_prompt_with_history prompt None =
        system_prompt @ ''\<newline>\<newline>User: '' @ prompt @ ''\<newline>Assistant:''"
proof -
  have nonempty: "load_memory_variables m \<noteq> []"
    if "12 < length (splitlines (load_memory_variables m))"
    using that by (auto simp: splitlines_Nil)
  show ?thesis
    using nonempty
    by (simp add: build_prompt_with_history_def Let_def last_n_def)
qed

text \<open>
  C2 at a transcript of fifteen lines, whose twelve last lines start in the middle of a
  turn, and at a new memory.
\<close>

theorem build_prompt_last_12_lines_witness:
  "12 < length (splitlines (load_memory_variables example_memory))
   \<and> build_prompt_with_history ''hi'' (Some example_memory) =
       system_prompt @ ''\<newline>\<newline>Conversation history:\<newline>''
         @ ''d\<newline>Assistant: e\<newline>User: f\<newline>Assistant: g\<newline>User: h\<newline>Assistant: i\<newline>User: j\<newline>Assistant: k\<newline>User: l\<newline>Assistant: m\<newline>User: n\<newline>Assistant: o''
         @ ''\<newline>User: hi\<newline>Assistant:''
   \<and> load_memory_variables new_memory = []
   \<and> build_prompt_with_history ''hi'' (Some new_memory) =
       system_prompt @ ''\<newline>\<newline>User: hi\<newline>Assistant:''"
proof -
  let ?lines = "splitlines (load_memory_variables example_memory)"
  have len: "12 < length ?lines"
    by code_simp
  have kept: "join ''\<newline>'' (drop (length ?lines - 12) ?lines) =
      ''d\<newline>Assistant: e\<newline>User: f\<newline>Assistant: g\<newline>User: h\<newline>Assistant: i\<newline>User: j\<newline>Assistant: k\<newline>User: l\<newline>Assistant: m\<newline>User: n\<newline>Assistant: o''"
    by code_simp
  have empty: "load_memory_variables new_memory = []"
    by (simp add: load_memory_variables_def new_memory_def)
  from build_prompt_last_12_lines [of example_memory "''hi''"] len kept
  have one: "build_prompt_with_history ''hi'' (Some example_memory) =
       system_prompt @ ''\<newline>\<newline>Conversation history:\<newline>''
         @ ''d\<newline>Assistant: e\<newline>User: f\<newline>Assistant: g\<newline>User: h\<newline>Assistant: i\<newline>User: j\<newline>Assistant: k\<newline>User: l\<newline>Assistant: m\<newline>User: n\<newline>Assistant: o''
         @ ''\<newline>User: hi\<newline>Assistant:''"
    by (simp add: Let_def)
  from build_prompt_last_12_lines [of new_memory "''hi''"] empty
  have two: "build_prompt_with_history ''hi'' (Some new_memory) =
       system_prompt @ ''\<newline>\<newline>User: hi\<newline>Assistant:''"
    by simp
  from len one empty two show ?thesis by simp
qed

subsection \<open>Over-long responses\<close>

text \<open>
  Claim C3 says that every response of more than 4000 characters leads to exactly one
  rewrite call. The rewrite call is made inside a second
  \<^verbatim>\<open>async with message.channel.typing()\<close>: where entering that block raises, the first
  call has returned 4001 characters and the handler calls \<^verbatim>\<open>get_response\<close> once only,
  then apologises.
\<close>

theorem rewrite_call_skipped_counterexample:
  "wait_for typing_fails_world 20 ''ping'' new_memory = Inr long_answer
   \<and> length long_answer = 4001
   \<and> events (process_llm_message typing_fails_world Map.empty greeting) =
       [CallLLM ''ping'',
        Send ''Sorry, I encountered an error while processing your message.'',
        Print ''Error in process_llm_message:'']"
proof -
  have fields: "bot_user typing_fails_world = Some 7"
      "\<not> send_raises typing_fails_world c x"
      "environ typing_fails_world ''LLM_TIMEOUT'' = None"
      "typing_raises typing_fails_world c 0 = None"
      "typing_raises typing_fails_world c (Suc 0) = Some (LibraryError ''typing failed'')"
      "\<not> deadline_passes typing_fails_world t ''ping''"
      "get_response typing_fails_world p (Some m) = Inr long_answer" for c x t p m
    by (simp_all add: typing_fails_world_def long_world_def both_world_def sonar_only_world_def
          get_response_def primary_llm_def getenv_or_def lower_gemini get_gemini_response_def
          startswith_def)
  have first: "wait_for typing_fails_world 20 ''ping'' new_memory = Inr long_answer"
    by (simp add: wait_for_def fields)
  have len: "length long_answer = 4001"
    by (simp add: long_answer_def)
  have one: "str_nat (channel greeting) = ''1''"
    by code_simp
  have "events (process_llm_message typing_fails_world Map.empty greeting) =
       [CallLLM ''ping'',
        Send ''Sorry, I encountered an error while processing your message.'',
        Print ''Error in process_llm_message:'']"
    by (simp add: process_llm_message_def Let_def fields(1-5) greeting_input one memory_of_def
          respond_def shorten_def typing_wait_for_def send_def getenv_or_def default_timeout
          first len)
  with first len show ?thesis
    by blast
qed

text \<open>
  Claim C3, amended. When the first call returns a text \<open>r\<close> of more than 4000
  characters, the handler enters the typing block a second time. If entering it does not
  raise, the handler makes exactly one more call of \<^verbatim>\<open>get_response\<close>, on the rewrite
  instruction built from \<open>r\<close>: the text that call returns is the text sent, whatever its
  length; when the call times out, the text sent is the first 3997 characters of \<open>r\<close>
  followed by three dots, 4000 characters in all; when the call raises anything else,
  the apology is sent. If entering the typing block raises, no second call is made: a
  timeout gives the truncated text, anything else the apology. What follows the send of
  a response is the update of the memory or, when the send raises, the apology. No run
  of the handler calls \<^verbatim>\<open>get_response\<close> more than twice.
\<close>

theorem long_response_rewritten_once:
  assumes "user_input (bot_user w) msg = text" and "text \<noteq> []"
    and "py_int (getenv_or w ''LLM_TIMEOUT'' ''20'') = Inr t"
    and "memory_of mems (str_nat (channel msg)) = memory"
    and "typing_raises w (channel msg) 0 = None"
    and "wait_for w t text memory = Inr r" and "4000 < length r"
  shows "(let out = events (process_llm_message w mems msg);
              rewrite = wait_for w t (rewrite_prompt r) memory;
              truncated = take 3997 r @ ''...'';
              apology =
                Send ''Sorry, I encountered an error while processing your message.''
                # (if send_raises w (channel msg)
                        ''Sorry, I encountered an error while processing your message.''
                   then [] else [Print ''Error in process_llm_message:'']);
              sent = (\<lambda>x. Send x # (if send_raises w (channel msg) x then apology
                                       else [SaveContext text x]))
          in length truncated = 4000
           \<and> (typing_raises w (channel msg) 1 = None \<longrightarrow>
                filter is_call out = [CallLLM text, CallLLM (rewrite_prompt r)]
                \<and> (\<forall>r'. rewrite = Inr r' \<longrightarrow>
                      out = [CallLLM text, CallLLM (rewrite_prompt r)] @ sent r')
                \<and> (rewrite = Inl TimeoutError \<longrightarrow>
                      out = [CallLLM text, CallLLM (rewrite_prompt r)] @ sent truncated)
                \<and> (\<forall>e. rewrite = Inl e \<and> e \<noteq> TimeoutError \<longrightarrow>
                      out = [CallLLM text, CallLLM (rewrite_prompt r)] @ apology))
           \<and> (typing_raises w (channel msg) 1 = Some TimeoutError \<longrightarrow>
                out = [CallLLM text] @ sent truncated)
           \<and> (\<forall>e. typing_raises w (channel msg) 1 = Some e \<and> e \<noteq> TimeoutError \<longrightarrow>
                out = [CallLLM text] @ apology))
       \<and> length (filter is_call (events (process_llm_message w' mems' msg'))) \<le> 2"
proof -
  have general: "length (filter is_call (events (process_llm_message w' mems' msg'))) \<le> 2"
    using respond_calls [of w' msg' "memory_of mems' (str_nat (channel msg'))"
            "user_input (bot_user w') msg'"]
    by (auto simp: process_llm_message_def Let_def split: sum.splits prod.splits)
  have len: "length (take 3997 r @ ''...'') = 4000"
    using assms(7) by simp
  have returned: "events (process_llm_message w mems msg) =
        [CallLLM text, CallLLM (rewrite_prompt r)]
        @ Send r' # (if send_raises w (channel msg) r'
             then Send ''Sorry, I encountered an error while processing your message.''
                  # (if send_raises w (channel msg)
                          ''Sorry, I encountered an error while processing your message.''
                     then [] else [Print ''Error in process_llm_message:''])
             else [SaveContext text r'])"
    if "typing_raises w (channel msg) 1 = None"
      and "wait_for w t (rewrite_prompt r) memory = Inr r'" for r'
    using assms that
    by (simp add: process_llm_message_def respond_def shorten_def typing_wait_for_def
          send_def Let_def)
  have timed_out: "events (process_llm_message w mems msg) =
        [CallLLM text, CallLLM (rewrite_prompt r)]
        @ Send (take 3997 r @ ''...'') # (if send_raises w (channel msg) (take 3997 r @ ''...'')
             then Send ''Sorry, I encountered an error while processing your message.''
                  # (if send_raises w (channel msg)
                          ''Sorry, I encountered an error while processing your message.''
                     then [] else [Print ''Error in process_llm_message:''])
             else [SaveContext text (take 3997 r @ ''...'')])"
    if "typing_raises w (channel msg) 1 = None"
      and "wait_for w t (rewrite_prompt r) memory = Inl TimeoutError"
    using assms that
    by (simp add: process_llm_message_def respond_def shorten_def typing_wait_for_def
          send_def Let_def)
  have failed: "events (process_llm_message w mems msg) =
        [CallLLM text, CallLLM (rewrite_prompt r)]
        @ Send ''Sorry, I encountered an error while processing your message.''
          # (if send_raises w (channel msg)
                  ''Sorry, I encountered an error while processing your message.''
             then [] else [Print ''Error in process_llm_message:''])"
    if "typing_raises w (channel msg) 1 = None"
      and "wait_for w t (rewrite_prompt r) memory = Inl e" and "e \<noteq> TimeoutError" for e
    using assms that
    by (cases e)
       (simp_all add: process_llm_message_def respond_def shorten_def typing_wait_for_def
          send_def Let_def)
  have calls: "filter is_call (events (process_llm_message w mems msg))
        = [CallLLM text, CallLLM (rewrite_prompt r)]"
    if none: "typing_raises w (channel msg) 1 = None"
  proof (cases "wait_for w t (rewrite_prompt r) memory")
    case (Inr r')
    from returned [OF none Inr] show ?thesis by simp
  next
    case (Inl e)
    show ?thesis
    proof (cases "e = TimeoutError")
      case True
      with Inl timed_out [OF none] show ?thesis by simp
    next
      case False
      from failed [OF none Inl False] show ?thesis by simp
    qed
  qed
  have typing_timeout: "events (process_llm_message w mems msg) =
        [CallLLM text]
        @ Send (take 3997 r @ ''...'') # (if send_raises w (channel msg) (take 3997 r @ ''...'')
             then Send ''Sorry, I encountered an error while processing your message.''
                  # (if send_raises w (channel msg)
                          ''Sorry, I encountered an error while processing your message.''
                     then [] else [Print ''Error in process_llm_message:''])
             else [SaveContext text (take 3997 r @ ''...'')])"
    if "typing_raises w (channel msg) 1 = Some TimeoutError"
    using assms that
    by (simp add: process_llm_message_def respond_def shorten_def typing_wait_for_def
          send_def Let_def)
  have typing_failed: "events (process_llm_message w mems msg) =
        [CallLLM text]
        @ Send ''Sorry, I encountered an error while processing your message.''
          # (if send_raises w (channel msg)
                  ''Sorry, I encountered an error while processing your message.''
             then [] else [Print ''Error in process_llm_message:''])"
    if "typing_raises w (channel msg) 1 = Some e" and "e \<noteq> TimeoutError" for e
    using assms that
    by (cases e)
       (simp_all add: process_llm_message_def respond_def shorten_def typing_wait_for_def
          send_def Let_def)
  from general len calls returned timed_out failed typing_timeout typing_failed
  show ?thesis
    unfolding Let_def by blast
qed

text \<open>
  C3, amended, at a process whose first answer has 4001 characters and whose rewrite call
  times out, and at the same process when the rewrite call returns 4001 characters
  again, which are sent as they are.
\<close>

theorem long_response_rewritten_once_witness:
  "user_input (bot_user long_world) greeting = ''ping''
   \<and> py_int (getenv_or long_world ''LLM_TIMEOUT'' ''20'') = Inr 20
   \<and> memory_of Map.empty (str_nat (channel greeting)) = new_memory
   \<and> typing_raises long_world (channel greeting) 0 = None
   \<and> typing_raises long_world (channel greeting) 1 = None
   \<and> wait_for long_world 20 ''ping'' new_memory = Inr long_answer
   \<and> 4000 < length long_answer
   \<and> wait_for long_world 20 (rewrite_prompt long_answer) new_memory = Inl TimeoutError
   \<and> events (process_llm_message long_world Map.empty greeting) =
       [CallLLM ''ping'', CallLLM (rewrite_prompt long_answer),
        Send (replicate 3997 CHR ''x'' @ ''...''),
        SaveContext ''ping'' (replicate 3997 CHR ''x'' @ ''...'')]
   \<and> wait_for stubborn_world 20 (rewrite_prompt long_answer) new_memory = Inr long_answer
   \<and> events (process_llm_message stubborn_world Map.empty greeting) =
       [CallLLM ''ping'', CallLLM (rewrite_prompt long_answer),
        Send long_answer, SaveContext ''ping'' long_answer]"
proof -
  have long_fields: "bot_user long_world = Some 7" "\<not> send_raises long_world c x"
      "typing_raises long_world c n = None" for c x n
    by (simp_all add: long_world_def both_world_def sonar_only_world_def)
  have stubborn_fields: "bot_user stubborn_world = Some 7" "\<not> send_raises stubborn_world c x"
      "typing_raises stubborn_world c n = None" "\<not> deadline_passes stubborn_world t p"
      "environ stubborn_world ''LLM_TIMEOUT'' = None"
      "get_response stubborn_world p (Some m) = Inr long_answer" for c x n t p m
    by (simp_all add: stubborn_world_def long_world_def both_world_def sonar_only_world_def
          get_response_def primary_llm_def getenv_or_def lower_gemini get_gemini_response_def)
  have a: "user_input (bot_user long_world) greeting = ''ping''"
    by (simp add: long_fields greeting_input)
  have a': "user_input (bot_user stubborn_world) greeting = ''ping''"
    by (simp add: stubborn_fields greeting_input)
  have b: "py_int (getenv_or long_world ''LLM_TIMEOUT'' ''20'') = Inr 20"
    by (simp add: getenv_or_def long_world_def both_world_def sonar_only_world_def default_timeout)
  have b': "py_int (getenv_or stubborn_world ''LLM_TIMEOUT'' ''20'') = Inr 20"
    by (simp add: getenv_or_def stubborn_fields default_timeout)
  have c: "memory_of Map.empty (str_nat (channel greeting)) = new_memory"
    by (simp add: memory_of_def)
  have d: "4000 < length long_answer"
    by (simp add: long_answer_def)
  have e: "take 3997 long_answer = replicate 3997 CHR ''x''"
    by (simp add: long_answer_def)
  have first': "wait_for stubborn_world 20 ''ping'' new_memory = Inr long_answer"
    and second': "wait_for stubborn_world 20 (rewrite_prompt long_answer) new_memory = Inr long_answer"
    by (simp_all add: wait_for_def stubborn_fields)
  from long_response_rewritten_once [OF a _ b c long_fields(3) long_world_first_call d]
       long_world_rewrite_call long_fields e
  have timed_out: "events (process_llm_message long_world Map.empty greeting) =
       [CallLLM ''ping'', CallLLM (rewrite_prompt long_answer),
        Send (replicate 3997 CHR ''x'' @ ''...''),
        SaveContext ''ping'' (replicate 3997 CHR ''x'' @ ''...'')]"
    by (simp add: Let_def)
  from long_response_rewritten_once [OF a' _ b' c stubborn_fields(3) first' d]
       second' stubborn_fields
  have returned: "events (process_llm_message stubborn_world Map.empty greeting) =
       [CallLLM ''ping'', CallLLM (rewrite_prompt long_answer),
        Send long_answer, SaveContext ''ping'' long_answer]"
    by (simp add: Let_def)
  from a b c d long_fields(3) long_world_first_call long_world_rewrite_call timed_out
       second' returned
  show ?thesis
    by blast
qed

subsection \<open>Memory after a failed turn\<close>



subsection \<open>The personas\<close>

text \<open>
  Claim C5 says that the prompt built for the primary provider differs from the prompt
  built for the backup provider. It does not: where both vendors answer with the prompt
  text they received, the two providers return the same text, which starts with the
  one persona that \<^verbatim>\<open>_build_prompt_with_history\<close> knows.
\<close>

theorem provider_prompts_differ_counterexample:
  "get_gemini_response echo_world ''ping'' None = Inr (system_prompt @ ''\<newline>\<newline>User: ping\<newline>Assistant:'')
   \<and> get_sonar_response echo_world ''ping'' None = Inr (system_prompt @ ''\<newline>\<newline>User: ping\<newline>Assistant:'')"
  by (simp add: get_gemini_response_def get_sonar_response_def echo_world_def both_world_def sonar_only_world_def
       payload_def answering_def build_prompt_with_history_def)

text \<open>
  Claim C5, amended. With both providers configured, each provider's request carries the
  prompt built by \<^verbatim>\<open>_build_prompt_with_history\<close> from the user text and the memory, the
  same text for both, starting with the same persona text. The backup provider sends its
  own persona beside that prompt, as the system message of its request. The two persona
  texts differ: the backup's contains the sentence that forbids citations and bracketed
  markers, the other one does not.
\<close>

theorem providers_share_built_prompt:
  assumes "environ w ''GEMINI_API_KEY'' = Some gemini_api_key" and "gemini_api_key \<noteq> []"
    and "has_gemini_client w"
    and "environ w ''PERPLEXITY_API_KEY'' = Some perplexity_api_key" and "perplexity_api_key \<noteq> []"
    and "environ w ''PERPLEXITY_API_URL'' = Some perplexity_api_url" and "perplexity_api_url \<noteq> []"
    and "has_aiohttp w"
  shows "get_gemini_response w prompt memory =
           (case generate_content w gemini_api_key MODEL_NAME
                   (build_prompt_with_history prompt memory) of
              Inl e \<Rightarrow> Inl (RuntimeError ''Gemini client error'')
            | Inr text \<Rightarrow> Inr text)
       \<and> get_sonar_response w prompt memory =
           (case session_post w perplexity_api_url (headers perplexity_api_key)
                   \<lparr>model = ''sonar'',
                    messages = [(''system'', system_message),
                                (''user'', build_prompt_with_history prompt memory)],
                    citations = False, max_tokens = 150\<rparr> of
              Inl e \<Rightarrow> Inl e
            | Inr resp \<Rightarrow>
                if status resp \<noteq> 200
                then Inl (RuntimeError (''Sonar API error: '' @ str_nat (status resp)
                            @ '' - '' @ body_text resp))
                else extracted resp)
       \<and> startswith (build_prompt_with_history prompt memory) system_prompt
       \<and> system_message \<noteq> system_prompt
       \<and> contains ''You NEVER cite sources, quote references, or use brackets like [1][2].''
            system_message
       \<and> \<not> contains ''You NEVER cite sources, quote references, or use brackets like [1][2].''
            system_prompt"
  using assms built_prompt_starts_with_persona [of prompt memory] personas_differ
    backup_persona_forbids_citations primary_persona_silent_on_citations
  by (simp add: get_gemini_response_def get_sonar_response_def payload_def Let_def)

text \<open>C5, amended, at the process whose vendors answer with the prompt they received.\<close>

theorem providers_share_built_prompt_witness:
  "environ echo_world ''GEMINI_API_KEY'' = Some ''key-g'' \<and> has_gemini_client echo_world
   \<and> environ echo_world ''PERPLEXITY_API_KEY'' = Some ''key-p''
   \<and> environ echo_world ''PERPLEXITY_API_URL'' = Some ''https://sonar'' \<and> has_aiohttp echo_world
   \<and> get_gemini_response echo_world ''ping'' (Some example_memory)
       = Inr (build_prompt_with_history ''ping'' (Some example_memory))
   \<and> get_sonar_response echo_world ''ping'' (Some example_memory)
       = Inr (build_prompt_with_history ''ping'' (Some example_memory))"
proof -
  have env: "environ echo_world ''GEMINI_API_KEY'' = Some ''key-g''"
       "environ echo_world ''PERPLEXITY_API_KEY'' = Some ''key-p''"
       "environ echo_world ''PERPLEXITY_API_URL'' = Some ''https://sonar''"
    and flags: "has_gemini_client echo_world" "has_aiohttp echo_world"
    and gen: "generate_content echo_world k m p = Inr p"
    and post: "session_post echo_world u h b =
           (case map_of (messages b) ''user'' of
             Some text \<Rightarrow> Inr (answering text)
           | None \<Rightarrow> Inl (LibraryError ''no user message''))" for k m p u h b
    by (simp_all add: echo_world_def both_world_def sonar_only_world_def)
  from providers_share_built_prompt [OF env(1) _ flags(1) env(2) _ env(3) _ flags(2),
         of "''ping''" "Some example_memory"]
  have "get_gemini_response echo_world ''ping'' (Some example_memory)
       = Inr (build_prompt_with_history ''ping'' (Some example_memory))
   \<and> get_sonar_response echo_world ''ping'' (Some example_memory)
       = Inr (build_prompt_with_history ''ping'' (Some example_memory))"
    by (simp add: gen post answering_def)
  with env flags show ?thesis by simp
qed

subsection \<open>The provider order\<close>

text \<open>
  Claim C6 says that the selector is read once and that the order is the same for any two
  calls in one process whatever happens to the environment in between. It is not: after
  \<^verbatim>\<open>PRIMARY_LLM\<close> is set to \<^verbatim>\<open>Sonar\<close> in the environment of a process where both
  providers answer, the next call asks Sonar first, where the call before asked Gemini
  first.
\<close>

theorem provider_order_fixed_counterexample:
  "both_world_sonar_first = both_world\<lparr>environ := (environ both_world)(''PRIMARY_LLM'' \<mapsto> ''Sonar'')\<rparr>
   \<and> get_response both_world ''ping'' None = Inr ''gemini speaking''
   \<and> get_response both_world_sonar_first ''ping'' None = Inr ''sonar speaking''"
proof -
  have "get_response both_world ''ping'' None = Inr ''gemini speaking''"
    by code_simp
  moreover have "get_response both_world_sonar_first ''ping'' None = Inr ''sonar speaking''"
    by code_simp
  ultimately show ?thesis
    by (simp add: both_world_sonar_first_def)
qed

text \<open>
  Claim C6, amended. Every call of \<^verbatim>\<open>get_response\<close> reads \<^verbatim>\<open>PRIMARY_LLM\<close> from the
  environment it finds and is one attempt per provider in the order that value gives:
  Sonar first when the value, in lower case, is \<^verbatim>\<open>perplexity\<close> or \<^verbatim>\<open>sonar\<close>, Gemini first
  when it is anything else or the variable is not set. So two calls that find the same
  value use the same order, and two calls use different orders exactly when one of them
  finds a value that puts Sonar first and the other does not.
\<close>

theorem provider_order_read_per_call:
  "get_response w prompt memory =
     attempt_in_order w
       (if (case environ w ''PRIMARY_LLM'' of None \<Rightarrow> False
            | Some v \<Rightarrow> lower v = ''perplexity'' \<or> lower v = ''sonar'')
        then [Sonar, Gemini] else [Gemini, Sonar])
       [] prompt memory
   \<and> provider_order w =
       (if (case environ w ''PRIMARY_LLM'' of None \<Rightarrow> False
            | Some v \<Rightarrow> lower v = ''perplexity'' \<or> lower v = ''sonar'')
        then [Sonar, Gemini] else [Gemini, Sonar])
   \<and> (environ w ''PRIMARY_LLM'' = environ w' ''PRIMARY_LLM'' \<longrightarrow>
        provider_order w = provider_order w')
   \<and> (provider_order w \<noteq> provider_order w' \<longleftrightarrow>
        (case environ w ''PRIMARY_LLM'' of None \<Rightarrow> False
         | Some v \<Rightarrow> lower v = ''perplexity'' \<or> lower v = ''sonar'')
        \<noteq> (case environ w' ''PRIMARY_LLM'' of None \<Rightarrow> False
           | Some v \<Rightarrow> lower v = ''perplexity'' \<or> lower v = ''sonar''))"
proof -
  have selector: "primary_llm u \<in> set [''perplexity'', ''sonar''] \<longleftrightarrow>
      (case environ u ''PRIMARY_LLM'' of None \<Rightarrow> False
       | Some v \<Rightarrow> lower v = ''perplexity'' \<or> lower v = ''sonar'')" for u
    by (simp add: primary_llm_def getenv_or_def lower_gemini split: option.splits)
  have order: "provider_order u =
       (if (case environ u ''PRIMARY_LLM'' of None \<Rightarrow> False
            | Some v \<Rightarrow> lower v = ''perplexity'' \<or> lower v = ''sonar'')
        then [Sonar, Gemini] else [Gemini, Sonar])" for u
    using selector [of u] by (simp add: provider_order_def)
  have call: "get_response w prompt memory =
      attempt_in_order w (provider_order w) [] prompt memory"
    by (auto simp: get_response_def provider_order_def split: sum.splits)
  have same: "environ w ''PRIMARY_LLM'' = environ w' ''PRIMARY_LLM'' \<Longrightarrow>
      provider_order w = provider_order w'"
    by (simp add: order)
  have differ: "provider_order w \<noteq> provider_order w' \<longleftrightarrow>
        (case environ w ''PRIMARY_LLM'' of None \<Rightarrow> False
         | Some v \<Rightarrow> lower v = ''perplexity'' \<or> lower v = ''sonar'')
        \<noteq> (case environ w' ''PRIMARY_LLM'' of None \<Rightarrow> False
           | Some v \<Rightarrow> lower v = ''perplexity'' \<or> lower v = ''sonar'')"
    by (simp add: order)
  from call order [of w] same differ show ?thesis
    by simp
qed

text \<open>
  C6, amended, at four environments of one process with both providers answering:
  \<^verbatim>\<open>PRIMARY_LLM\<close> unset, set to \<^verbatim>\<open>Sonar\<close>, set to \<^verbatim>\<open>perplexity\<close> and set to \<^verbatim>\<open>sonar \<close>
  with a space at its end. The first change moves the order from Gemini first to Sonar
  first, the second keeps Sonar first, and the last value puts Gemini first again.
\<close>

theorem provider_order_read_per_call_witness:
  "environ both_world ''PRIMARY_LLM'' = None
   \<and> environ both_world_sonar_first ''PRIMARY_LLM'' = Some ''Sonar''
   \<and> provider_order both_world = [Gemini, Sonar]
   \<and> provider_order both_world_sonar_first = [Sonar, Gemini]
   \<and> provider_order both_world \<noteq> provider_order both_world_sonar_first
   \<and> get_response both_world ''ping'' None = Inr ''gemini speaking''
   \<and> get_response both_world_sonar_first ''ping'' None = Inr ''sonar speaking''
   \<and> provider_order (both_world\<lparr>environ := (environ both_world)(''PRIMARY_LLM'' \<mapsto> ''perplexity'')\<rparr>)
       = provider_order both_world_sonar_first
   \<and> provider_order (both_world\<lparr>environ := (environ both_world)(''PRIMARY_LLM'' \<mapsto> ''sonar '')\<rparr>)
       = provider_order both_world
   \<and> provider_order sonar_only_world = provider_order both_world"
proof -
  let ?p = "both_world\<lparr>environ := (environ both_world)(''PRIMARY_LLM'' \<mapsto> ''perplexity'')\<rparr>"
  let ?s = "both_world\<lparr>environ := (environ both_world)(''PRIMARY_LLM'' \<mapsto> ''sonar '')\<rparr>"
  have env: "environ both_world ''PRIMARY_LLM'' = None"
      "environ both_world_sonar_first ''PRIMARY_LLM'' = Some ''Sonar''"
      "environ sonar_only_world ''PRIMARY_LLM'' = None"
      "environ ?p ''PRIMARY_LLM'' = Some ''perplexity''"
      "environ ?s ''PRIMARY_LLM'' = Some ''sonar ''"
    by (simp_all add: both_world_sonar_first_def both_world_def sonar_only_world_def)
  have low: "lower ''Sonar'' = ''sonar''" "lower ''perplexity'' = ''perplexity''"
      "lower ''sonar '' = ''sonar ''"
    by code_simp+
  have keys: "environ both_world ''GEMINI_API_KEY'' = Some ''key-g''"
      "environ both_world_sonar_first ''PERPLEXITY_API_KEY'' = Some ''key-p''"
      "environ both_world_sonar_first ''PERPLEXITY_API_URL'' = Some ''https://sonar''"
      "has_gemini_client both_world" "has_aiohttp both_world_sonar_first"
      "generate_content both_world k m p = Inr ''gemini speaking''"
      "session_post both_world_sonar_first u h b = Inr (answering ''sonar speaking'')"
    for k m p u h b
    by (simp_all add: both_world_sonar_first_def both_world_def sonar_only_world_def)
  note t1 = provider_order_read_per_call [of both_world "''ping''" None both_world_sonar_first]
  note t2 = provider_order_read_per_call [of both_world_sonar_first "''ping''" None both_world]
  note t3 = provider_order_read_per_call [of ?p "''ping''" None both_world]
  note t4 = provider_order_read_per_call [of ?s "''ping''" None both_world]
  note t5 = provider_order_read_per_call [of sonar_only_world "''ping''" None both_world]
  from t1 env have o1: "provider_order both_world = [Gemini, Sonar]"
    by simp
  from t2 env low have o2: "provider_order both_world_sonar_first = [Sonar, Gemini]"
    by simp
  from t1 env low o1 o2 have ne: "provider_order both_world \<noteq> provider_order both_world_sonar_first"
    by simp
  from t1 env have r1: "get_response both_world ''ping'' None = Inr ''gemini speaking''"
    by (simp add: get_gemini_response_def keys)
  from t2 env low have r2: "get_response both_world_sonar_first ''ping'' None = Inr ''sonar speaking''"
    by (simp add: get_sonar_response_def keys answering_def)
  from t3 [THEN conjunct2, THEN conjunct1] low have "provider_order ?p = [Sonar, Gemini]"
    by simp
  with o2 have o3: "provider_order ?p = provider_order both_world_sonar_first"
    by simp
  from t4 [THEN conjunct2, THEN conjunct1] low have "provider_order ?s = [Gemini, Sonar]"
    by simp
  with o1 have o4: "provider_order ?s = provider_order both_world"
    by simp
  from t5 [THEN conjunct2, THEN conjunct2, THEN conjunct1] env
  have o5: "provider_order sonar_only_world = provider_order both_world"
    by simp
  from env(1,2) o1 o2 ne r1 r2 o3 o4 o5 show ?thesis
    by blast
qed

subsection \<open>The reminder loop\<close>

text \<open>
  A round during which no request arrives. On a file holding the reminders \<open>rs\<close>, a
  round at the time \<open>T\<close> leaves in the file exactly the reminders of \<open>rs\<close> with a
  trigger time after \<open>T\<close>, in their order. When some reminder is due, the round delivers
  the reminders with a trigger time of at most \<open>T\<close>, in their order, each delivery on
  its own, and writes the remaining ones back before it closes the file it has read.
  Every reminder of \<open>rs\<close> is either delivered or kept. A second round at the same time
  \<open>T\<close> finds nothing due: it delivers nothing and leaves the file as it is.
\<close>

lemma round_without_arrivals:
  "snd (check_reminders_round w T (Stored rs) []) = Stored (filter (\<lambda>r. T < trigger_time r) rs)
   \<and> (filter (\<lambda>r. trigger_time r \<le> T) rs \<noteq> [] \<longrightarrow>
        fst (check_reminders_round w T (Stored rs) []) =
          [OpenFile, LoadFile]
          @ concat (map (deliver w) (filter (\<lambda>r. trigger_time r \<le> T) rs))
          @ [DumpFile (filter (\<lambda>r. T < trigger_time r) rs), CloseFile, Sleep 15])
   \<and> (\<forall>r \<in> set rs. r \<in> set (filter (\<lambda>r. trigger_time r \<le> T) rs)
                     \<or> r \<in> set (filter (\<lambda>r. T < trigger_time r) rs))
   \<and> check_reminders_round w T (snd (check_reminders_round w T (Stored rs) [])) []
       = ([OpenFile, LoadFile, CloseFile, Sleep 15], Stored (filter (\<lambda>r. T < trigger_time r) rs))"
proof -
  have stored: "snd (check_reminders_round w T (Stored rs) []) = Stored (future_reminders T rs)"
    by (simp add: check_reminders_round_def dump_def future_when_none_due)
  have again: "check_reminders_round w T (Stored (future_reminders T rs)) []
       = ([OpenFile, LoadFile, CloseFile, Sleep 15], Stored (future_reminders T rs))"
    by (simp add: check_reminders_round_def due_of_future)
  have evs: "due_reminders T rs \<noteq> [] \<Longrightarrow>
        fst (check_reminders_round w T (Stored rs) []) =
          [OpenFile, LoadFile] @ concat (map (deliver w) (due_reminders T rs))
          @ [DumpFile (future_reminders T rs), CloseFile, Sleep 15]"
    by (simp add: check_reminders_round_def)
  have split: "\<forall>r \<in> set rs. r \<in> set (due_reminders T rs) \<or> r \<in> set (future_reminders T rs)"
    by (auto simp: due_reminders_def future_reminders_def)
  from stored again evs split show ?thesis
    unfolding due_reminders_def future_reminders_def by simp
qed

text \<open>Such a round at the time 10 on three reminders, due at 5, 20 and 10.\<close>

lemma round_without_arrivals_example:
  "check_reminders_round sonar_only_world 10
       (Stored [reminder_at ''tea'' 5, reminder_at ''cake'' 20, reminder_at ''mail'' 10]) []
     = ([OpenFile, LoadFile,
         ChannelSend 1 ''<@2>, here is your reminder: **tea**'',
         ChannelSend 1 ''<@2>, here is your reminder: **mail**'',
         DumpFile [reminder_at ''cake'' 20], CloseFile, Sleep 15],
        Stored [reminder_at ''cake'' 20])
   \<and> check_reminders_round sonar_only_world 10 (Stored [reminder_at ''cake'' 20]) []
     = ([OpenFile, LoadFile, CloseFile, Sleep 15], Stored [reminder_at ''cake'' 20])"
proof -
  let ?rs = "[reminder_at ''tea'' 5, reminder_at ''cake'' 20, reminder_at ''mail'' 10]"
  have due: "filter (\<lambda>r. trigger_time r \<le> 10) ?rs = [reminder_at ''tea'' 5, reminder_at ''mail'' 10]"
    by (simp add: reminder_at_def)
  have future: "filter (\<lambda>r. 10 < trigger_time r) ?rs = [reminder_at ''cake'' 20]"
    by (simp add: reminder_at_def)
  have two: "str_nat 2 = ''2''"
    by code_simp
  have sent: "concat (map (deliver sonar_only_world) [reminder_at ''tea'' 5, reminder_at ''mail'' 10])
      = [ChannelSend 1 ''<@2>, here is your reminder: **tea**'',
         ChannelSend 1 ''<@2>, here is your reminder: **mail**'']"
    by (simp add: deliver_def sonar_only_world_def reminder_at_def mention_def two)
  note t = round_without_arrivals [of sonar_only_world 10 ?rs, unfolded due future sent]
  from t have one: "snd (check_reminders_round sonar_only_world 10 (Stored ?rs) [])
      = Stored [reminder_at ''cake'' 20]"
    by (rule conjunct1)
  from t have two: "fst (check_reminders_round sonar_only_world 10 (Stored ?rs) [])
      = [OpenFile, LoadFile,
         ChannelSend 1 ''<@2>, here is your reminder: **tea**'',
         ChannelSend 1 ''<@2>, here is your reminder: **mail**'',
         DumpFile [reminder_at ''cake'' 20], CloseFile, Sleep 15]"
    by simp
  from t [THEN conjunct2, THEN conjunct2, THEN conjunct2, unfolded one]
  have three: "check_reminders_round sonar_only_world 10 (Stored [reminder_at ''cake'' 20]) []
     = ([OpenFile, LoadFile, CloseFile, Sleep 15], Stored [reminder_at ''cake'' 20])" .
  from one two three show ?thesis
    by (simp add: prod_eq_iff)
qed

text \<open>
  Claim C7 says that a round at the time \<open>T\<close> removes from the file exactly the reminders
  with a trigger time of at most \<open>T\<close>, leaves every later one persisted, and writes the
  remaining ones back in the same critical section in which it has read them. The round
  is not one critical section: between the read and the write-back it waits for its
  deliveries, and it writes back the list it has computed before that wait. Here a
  round at the time 10 finds one reminder due; while it delivers, a request for a
  reminder in 10 minutes is handled, stored with the trigger time 610 and confirmed to
  the user; after the round the file holds no reminder at all.
\<close>

theorem poll_overwrites_reminder_created_meanwhile:
  "handle_reminder 10 ''id-1'' (Stored [reminder_at ''tea'' 5])
       (reminder_request ''remind me in 10 minutes to call mom'')
     = ([''Okay, I will remind <@2> to 'call mom' in 10 minutes.''],
        Stored [reminder_at ''tea'' 5,
                \<lparr>reminder_id = ''id-1'', user_id = 2, channel_id = 1,
                 reminder_text = ''call mom'', trigger_time = 610\<rparr>],
        True)
   \<and> check_reminders_round sonar_only_world 10 (Stored [reminder_at ''tea'' 5])
       [(10, ''id-1'', reminder_request ''remind me in 10 minutes to call mom'')]
     = ([OpenFile, LoadFile, ChannelSend 1 ''<@2>, here is your reminder: **tea**'',
         DumpFile [], CloseFile, Sleep 15],
        Stored [])"
proof -
  have trigger: "contains ''remind '' (lower (content (reminder_request ''remind me in 10 minutes to call mom'')))"
    by code_simp
  have two: "str_nat 2 = ''2''"
    by code_simp
  have created: "handle_reminder 10 ''id-1'' (Stored [reminder_at ''tea'' 5])
       (reminder_request ''remind me in 10 minutes to call mom'')
     = ([''Okay, I will remind <@2> to 'call mom' in 10 minutes.''],
        Stored [reminder_at ''tea'' 5,
                \<lparr>reminder_id = ''id-1'', user_id = 2, channel_id = 1,
                 reminder_text = ''call mom'', trigger_time = 610\<rparr>],
        True)"
    using trigger
    by (simp add: handle_reminder_def reminder_request_def parse_in_10_minutes mention_def two)
  have round: "check_reminders_round sonar_only_world 10 (Stored [reminder_at ''tea'' 5])
       [(10, ''id-1'', reminder_request ''remind me in 10 minutes to call mom'')]
     = ([OpenFile, LoadFile, ChannelSend 1 ''<@2>, here is your reminder: **tea**'',
         DumpFile [], CloseFile, Sleep 15],
        Stored [])"
    by (simp add: check_reminders_round_def due_reminders_def future_reminders_def dump_def
          reminder_at_def deliver_def sonar_only_world_def mention_def two)
  from created round show ?thesis
    by (rule conjI)
qed

subsection \<open>The reminder parser\<close>

text \<open>
  Claim C8 says that \<^verbatim>\<open>remind me to call mom in 10 minutes\<close> is parsed to 600 seconds, the
  task \<^verbatim>\<open>call mom\<close> and the time text \<^verbatim>\<open>10 minutes\<close>, and that \<^verbatim>\<open>in 1 minute\<close> is rendered
  as \<^verbatim>\<open>1 minute\<close>. The program returns the time texts \<^verbatim>\<open>10 m\<close> and \<^verbatim>\<open>1 m\<close>: the first
  pattern ends with the unit, whose alternatives are tried from the left, so \<^verbatim>\<open>m\<close> is
  taken before \<^verbatim>\<open>minutes\<close> is tried. The seconds and the task are as the claim says. The
  second pattern, where the unit is followed by more, captures the whole unit. On a text
  that both patterns match, the result is the one of the first pattern.
\<close>

theorem parse_reminder_cuts_unit:
  "parse_natural_language_reminder ''remind me to call mom in 10 minutes''
     = (Some 600, ''call mom'', ''10 m'')
   \<and> parse_natural_language_reminder ''remind me to water plants in 1 minute''
     = (Some 60, ''water plants'', ''1 m'')
   \<and> parse_natural_language_reminder ''remind me in 10 minutes to call mom''
     = (Some 600, ''call mom'', ''10 minutes'')
   \<and> re_search pattern2 ''in 3 sec to to x in 5 min to y''
     = Some [(3, ''to x in 5 min to y''), (2, ''sec''), (1, ''3'')]
   \<and> parse_natural_language_reminder ''in 3 sec to to x in 5 min to y''
     = (Some 300, ''to x'', ''5 m'')"
proof -
  have "parse_natural_language_reminder ''remind me to call mom in 10 minutes''
     = (Some 600, ''call mom'', ''10 m'')"
    by code_simp
  moreover have "parse_natural_language_reminder ''remind me to water plants in 1 minute''
     = (Some 60, ''water plants'', ''1 m'')"
    by code_simp
  moreover have "parse_natural_language_reminder ''remind me in 10 minutes to call mom''
     = (Some 600, ''call mom'', ''10 minutes'')"
    by code_simp
  moreover have "re_search pattern2 ''in 3 sec to to x in 5 min to y''
     = Some [(3, ''to x in 5 min to y''), (2, ''sec''), (1, ''3'')]"
    by code_simp
  moreover have "parse_natural_language_reminder ''in 3 sec to to x in 5 min to y''
     = (Some 300, ''to x'', ''5 m'')"
    by code_simp
  ultimately show ?thesis by blast
qed

subsection \<open>The limit of thirty days\<close>

text \<open>
  Claim C9. A message that asks for a reminder, with a task and a duration of more than
  30 days, is answered with the rejection text and leaves the file as it is. Whenever
  \<^verbatim>\<open>handle_reminder\<close> changes the file, the new file is the list of the reminders read
  from the old one with one reminder added at its end, and the trigger time of that
  reminder lies between the time of the request and 30 days after it.
\<close>

theorem reminder_limit:
  "((contains ''remind '' (lower (content msg)) \<or> contains ''set a reminder'' (lower (content msg)))
      \<and> parse_natural_language_reminder (content msg) = (Some seconds, text, time_str)
      \<and> text \<noteq> [] \<and> 30 * 24 * 3600 < seconds
     \<longrightarrow> handle_reminder now fresh_id file msg
           = ([''Sorry, I can only set reminders up to 30 days in the future.''], file, True))
   \<and> (handle_reminder now fresh_id file msg = (replies, file', handled)
     \<longrightarrow> file' = file
         \<or> (\<exists>r. file' = Stored ((case file of Stored rs \<Rightarrow> rs | _ \<Rightarrow> []) @ [r])
                \<and> now \<le> trigger_time r \<and> trigger_time r \<le> now + 30 * 24 * 3600))"
  by (auto simp: handle_reminder_def Let_def split: prod.splits option.splits if_splits)

text \<open>
  C9 at a request for a reminder in 744 hours, which is 31 days, and at a request for a
  reminder in 10 minutes made at the time 1000.
\<close>

theorem reminder_limit_witness:
  "parse_natural_language_reminder (content (reminder_request ''remind me to call mom in 744 hours''))
     = (Some 2678400, ''call mom'', ''744 h'')
   \<and> handle_reminder 1000 ''id-1'' (Stored [reminder_at ''tea'' 5])
        (reminder_request ''remind me to call mom in 744 hours'')
     = ([''Sorry, I can only set reminders up to 30 days in the future.''],
        Stored [reminder_at ''tea'' 5], True)
   \<and> handle_reminder 1000 ''id-1'' (Stored [reminder_at ''tea'' 5])
        (reminder_request ''remind me in 10 minutes to call mom'')
     = ([''Okay, I will remind <@2> to 'call mom' in 10 minutes.''],
        Stored [reminder_at ''tea'' 5,
                \<lparr>reminder_id = ''id-1'', user_id = 2, channel_id = 1,
                 reminder_text = ''call mom'', trigger_time = 1600\<rparr>],
        True)
   \<and> (1000 :: real) \<le> 1600 \<and> (1600 :: real) \<le> 1000 + 30 * 24 * 3600"
proof -
  let ?long = "reminder_request ''remind me to call mom in 744 hours''"
  let ?short = "reminder_request ''remind me in 10 minutes to call mom''"
  let ?new = "\<lparr>reminder_id = ''id-1'', user_id = 2, channel_id = 1,
                 reminder_text = ''call mom'', trigger_time = 1600\<rparr>"
  have a: "contains ''remind '' (lower (content ?long))"
    by code_simp
  have b: "parse_natural_language_reminder (content ?long) = (Some 2678400, ''call mom'', ''744 h'')"
    by (simp add: reminder_request_def parse_744_hours)
  from reminder_limit [of ?long 2678400 "''call mom''" "''744 h''" 1000 "''id-1''"
         "Stored [reminder_at ''tea'' 5]"] a b
  have rejected: "handle_reminder 1000 ''id-1'' (Stored [reminder_at ''tea'' 5]) ?long
     = ([''Sorry, I can only set reminders up to 30 days in the future.''],
        Stored [reminder_at ''tea'' 5], True)"
    by simp
  have c: "contains ''remind '' (lower (content ?short))"
    by code_simp
  have d: "str_nat 2 = ''2''"
    by code_simp
  have accepted: "handle_reminder 1000 ''id-1'' (Stored [reminder_at ''tea'' 5]) ?short
     = ([''Okay, I will remind <@2> to 'call mom' in 10 minutes.''],
        Stored [reminder_at ''tea'' 5, ?new], True)"
    using c
    by (simp add: handle_reminder_def reminder_request_def parse_in_10_minutes mention_def d)
  from reminder_limit [of ?short _ _ _ 1000 "''id-1''" "Stored [reminder_at ''tea'' 5]"
         "[''Okay, I will remind <@2> to 'call mom' in 10 minutes.'']"
         "Stored [reminder_at ''tea'' 5, ?new]" True] accepted
  have "(1000 :: real) \<le> 1600 \<and> (1600 :: real) \<le> 1000 + 30 * 24 * 3600"
    by auto
  with b rejected accepted show ?thesis
    by blast
qed

subsection \<open>A message that is only the trigger\<close>

text \<open>
  Claim C10. When the text left after removing the mentions of the bot and the trigger
  word, prepending the replied-to text and trimming is empty, the handler sends
  \<^verbatim>\<open>What's up?\<close> and nothing else happens: no call of \<^verbatim>\<open>get_response\<close>, no call of
  \<^verbatim>\<open>save_context\<close>. The memory of every channel reads as before, a channel without a
  memory having received an empty one, and the entries of all other channels are
  untouched.
\<close>

theorem bare_trigger_acknowledged:
  assumes "user_input (bot_user w) msg = []"
  shows "events (process_llm_message w mems msg) = [Send ''What's up?'']
       \<and> (\<forall>c. memory_of (channel_memories (process_llm_message w mems msg)) c = memory_of mems c)
       \<and> (\<forall>c. c \<noteq> str_nat (channel msg) \<longrightarrow>
              channel_memories (process_llm_message w mems msg) c = mems c)"
  using assms by (simp add: process_llm_message_def Let_def memory_of_upd_same)

text \<open>C10 at a message in a guild that consists of a mention of the bot and the trigger word.\<close>

theorem bare_trigger_acknowledged_witness:
  "user_input (bot_user sonar_only_world) bare_trigger = []
   \<and> events (process_llm_message sonar_only_world Map.empty bare_trigger) = [Send ''What's up?'']
   \<and> memory_of (channel_memories (process_llm_message sonar_only_world Map.empty bare_trigger)) ''1''
       = new_memory"
proof -
  have "user_input (Some 7) bare_trigger = []"
    by code_simp
  then have a: "user_input (bot_user sonar_only_world) bare_trigger = []"
    by (simp add: sonar_only_world_def)
  have "memory_of Map.empty ''1'' = new_memory"
    by (simp add: memory_of_def)
  with bare_trigger_acknowledged [OF a, of Map.empty] a show ?thesis
    by simp
qed

end
